theory Spec2Isabelle
  imports Complex_Main "HOL-Library.Log_Nat"
begin

section \<open>The data model of \<open>src/js/storage.js\<close>\<close>

text \<open>
  The storage manager keeps three collections in the browser's \<open>localStorage\<close>, each
  under its own key and serialised as JSON. A transaction and a budget are plain objects
  built by the forms of \<open>src/js/app.js\<close>; the fields below are the ones those forms and
  \<open>saveTransaction\<close>/\<open>saveBudget\<close> set.

  \<^item> \<open>id\<close> is a string, or missing (\<open>None\<close>) on a record that was never saved.
  \<^item> \<open>type\<close> and \<open>period\<close> come from a select element with two options each.
  \<^item> \<open>amount\<close> is a number as JSON writes it: a decimal text, kept here as the rational
    it spells. Reading it (\<open>JSON.parse\<close>, \<open>parseFloat\<close>) gives the double nearest to it;
    the arithmetic on doubles is in the section on numbers. (An amount that is not a
    number, which JSON writes as \<open>null\<close>, is outside the model.)
  \<^item> \<open>date\<close> and \<open>startDate\<close> are the value of a date input, the text \<open>YYYY-MM-DD\<close>;
    the model keeps the three numbers that text spells.
  \<^item> \<open>createdAt\<close> and \<open>updatedAt\<close> are \<open>new Date().toISOString()\<close>; the model keeps
    the instant (milliseconds since the epoch) that the text encodes, \<open>None\<close> while the
    field is missing.
\<close>

datatype tx_type = Income | Expense

datatype period = Monthly | Annual

record date =
  d_year :: int
  d_month :: int
  d_day :: int

record transaction =
  t_id :: "string option"
  t_type :: tx_type
  t_amount :: rat
  t_category :: string
  t_description :: string
  t_date :: date
  t_createdAt :: "int option"
  t_updatedAt :: "int option"

record budget =
  b_id :: "string option"
  b_category :: string
  b_amount :: rat
  b_period :: period
  b_startDate :: date
  b_createdAt :: "int option"
  b_updatedAt :: "int option"

text \<open>
  The category mapping is an object whose keys are the type names and whose values are
  arrays of names: an association list, in insertion order.
\<close>

type_synonym categories = "(string \<times> string list) list"

subsection \<open>localStorage\<close>

text \<open>
  \<open>this.storageKeys\<close> names the three items. An item that was never set is \<open>None\<close>
  (\<open>getItem\<close> returns \<open>null\<close>). \<open>setItem\<close> may throw (quota exceeded, storage
  disabled); \<open>setItem_throws\<close> says for which keys it currently does. The items hold what
  \<open>saveToStorage\<close> wrote, so \<open>JSON.parse\<close> gives back the value that was stringified
  and the \<open>catch\<close> of \<open>loadFromStorage\<close> is not reached.
\<close>

datatype storage_key = TransactionsKey | BudgetsKey | CategoriesKey

record localStorage =
  transactions_item :: "transaction list option"
  budgets_item :: "budget list option"
  categories_item :: "categories option"
  setItem_throws :: "storage_key \<Rightarrow> bool"

text \<open>
  \<open>saveToStorage(key, data)\<close>: \<open>setItem\<close> inside \<open>try\<close>; \<open>true\<close> when it returned,
  \<open>false\<close> (and the item as it was) when it threw. The second argument is the
  assignment that \<open>setItem(key, JSON.stringify(data))\<close> makes.
\<close>

definition saveToStorage ::
  "storage_key \<Rightarrow> (localStorage \<Rightarrow> localStorage) \<Rightarrow> localStorage \<Rightarrow> localStorage \<times> bool" where
  "saveToStorage key setItem ls =
     (if setItem_throws ls key then (ls, False) else (setItem ls, True))"

definition setTransactions :: "transaction list \<Rightarrow> localStorage \<Rightarrow> localStorage" where
  "setTransactions xs ls = ls\<lparr>transactions_item := Some xs\<rparr>"

definition setBudgets :: "budget list \<Rightarrow> localStorage \<Rightarrow> localStorage" where
  "setBudgets xs ls = ls\<lparr>budgets_item := Some xs\<rparr>"

definition setCategories :: "categories \<Rightarrow> localStorage \<Rightarrow> localStorage" where
  "setCategories c ls = ls\<lparr>categories_item := Some c\<rparr>"

subsection \<open>Identifiers\<close>

text \<open>
  \<open>generateId()\<close> is \<open>Date.now().toString(36) + Math.random().toString(36).substr(2)\<close>:
  the clock in base 36 followed by the digits of the random number after \<open>0.\<close>. The
  random digits are an argument of the model.
\<close>

definition digit36 :: "nat \<Rightarrow> char" where
  "digit36 d = ''0123456789abcdefghijklmnopqrstuvwxyz'' ! d"

fun toString36_nat :: "nat \<Rightarrow> string" where
  "toString36_nat n =
     (if n < 36 then [digit36 n] else toString36_nat (n div 36) @ [digit36 (n mod 36)])"

declare toString36_nat.simps [simp del]

definition toString36 :: "int \<Rightarrow> string" where
  "toString36 n = (if n < 0 then CHR ''-'' # toString36_nat (nat (- n)) else toString36_nat (nat n))"

definition generateId :: "int \<Rightarrow> string \<Rightarrow> string" where
  "generateId now rnd = toString36 now @ rnd"

text \<open>\<open>!x.id\<close>: a missing id and the empty string are falsy.\<close>

definition falsy_id :: "string option \<Rightarrow> bool" where
  "falsy_id i = (i = None \<or> i = Some [])"

text \<open>\<open>Array.prototype.findIndex\<close>; \<open>None\<close> is the \<open>-1\<close> of JavaScript.\<close>

fun findIndex :: "('a \<Rightarrow> bool) \<Rightarrow> 'a list \<Rightarrow> nat option" where
  "findIndex P [] = None"
| "findIndex P (x # xs) = (if P x then Some 0 else map_option Suc (findIndex P xs))"

section \<open>Transactions\<close>

definition getTransactions :: "localStorage \<Rightarrow> transaction list" where
  "getTransactions ls = (case transactions_item ls of None \<Rightarrow> [] | Some xs \<Rightarrow> xs)"

text \<open>
  \<open>saveTransaction(transaction)\<close> mutates the object it is given and then writes the
  collection. The model returns the store, the caller's object after the call, and the
  boolean. \<open>clock n\<close> is the \<open>n\<close>-th reading of the system clock during the call: a record
  without id reads it for the id, for \<open>createdAt\<close> and for \<open>updatedAt\<close>; a record with an
  id reads it once.

  \<open>stampTransaction\<close> is the first half of the body (the \<open>if (!transaction.id)\<close> and the
  assignment of \<open>updatedAt\<close>), \<open>putTransaction\<close> the second (\<open>findIndex\<close>, then replace
  at the index found or \<open>push\<close>). \<open>saveBudget\<close> has the same body on budgets.
\<close>

definition stampTransaction :: "(nat \<Rightarrow> int) \<Rightarrow> string \<Rightarrow> transaction \<Rightarrow> transaction" where
  "stampTransaction clock rnd tx =
     (if falsy_id (t_id tx)
      then tx\<lparr>t_id := Some (generateId (clock 0) rnd),
              t_createdAt := Some (clock 1),
              t_updatedAt := Some (clock 2)\<rparr>
      else tx\<lparr>t_updatedAt := Some (clock 0)\<rparr>)"

definition putTransaction :: "transaction \<Rightarrow> transaction list \<Rightarrow> transaction list" where
  "putTransaction tx transactions =
     (case findIndex (\<lambda>t. t_id t = t_id tx) transactions of
        Some existingIndex \<Rightarrow> transactions[existingIndex := tx]
      | None \<Rightarrow> transactions @ [tx])"

definition saveTransaction ::
  "(nat \<Rightarrow> int) \<Rightarrow> string \<Rightarrow> transaction \<Rightarrow> localStorage \<Rightarrow> localStorage \<times> transaction \<times> bool" where
  "saveTransaction clock rnd tx ls =
     (let transactions = getTransactions ls;
          tx' = stampTransaction clock rnd tx;
          (ls', ok) = saveToStorage TransactionsKey
                        (setTransactions (putTransaction tx' transactions)) ls
      in (ls', tx', ok))"

definition deleteTransaction :: "string option \<Rightarrow> localStorage \<Rightarrow> localStorage \<times> bool" where
  "deleteTransaction transactionId ls =
     (let transactions = getTransactions ls;
          filteredTransactions = filter (\<lambda>t. t_id t \<noteq> transactionId) transactions
      in saveToStorage TransactionsKey (setTransactions filteredTransactions) ls)"

text \<open>\<open>Array.prototype.find\<close>; \<open>None\<close> is \<open>undefined\<close>.\<close>

definition getTransactionById :: "string option \<Rightarrow> localStorage \<Rightarrow> transaction option" where
  "getTransactionById transactionId ls =
     find (\<lambda>t. t_id t = transactionId) (getTransactions ls)"

definition getTransactionsByCategory :: "string \<Rightarrow> localStorage \<Rightarrow> transaction list" where
  "getTransactionsByCategory category ls =
     filter (\<lambda>t. t_category t = category) (getTransactions ls)"

definition getTransactionsByType :: "tx_type \<Rightarrow> localStorage \<Rightarrow> transaction list" where
  "getTransactionsByType ty ls = filter (\<lambda>t. t_type t = ty) (getTransactions ls)"

section \<open>Budgets\<close>

definition getBudgets :: "localStorage \<Rightarrow> budget list" where
  "getBudgets ls = (case budgets_item ls of None \<Rightarrow> [] | Some xs \<Rightarrow> xs)"

definition stampBudget :: "(nat \<Rightarrow> int) \<Rightarrow> string \<Rightarrow> budget \<Rightarrow> budget" where
  "stampBudget clock rnd bg =
     (if falsy_id (b_id bg)
      then bg\<lparr>b_id := Some (generateId (clock 0) rnd),
              b_createdAt := Some (clock 1),
              b_updatedAt := Some (clock 2)\<rparr>
      else bg\<lparr>b_updatedAt := Some (clock 0)\<rparr>)"

definition putBudget :: "budget \<Rightarrow> budget list \<Rightarrow> budget list" where
  "putBudget bg budgets =
     (case findIndex (\<lambda>b. b_id b = b_id bg) budgets of
        Some existingIndex \<Rightarrow> budgets[existingIndex := bg]
      | None \<Rightarrow> budgets @ [bg])"

definition saveBudget ::
  "(nat \<Rightarrow> int) \<Rightarrow> string \<Rightarrow> budget \<Rightarrow> localStorage \<Rightarrow> localStorage \<times> budget \<times> bool" where
  "saveBudget clock rnd bg ls =
     (let budgets = getBudgets ls;
          bg' = stampBudget clock rnd bg;
          (ls', ok) = saveToStorage BudgetsKey (setBudgets (putBudget bg' budgets)) ls
      in (ls', bg', ok))"

definition deleteBudget :: "string option \<Rightarrow> localStorage \<Rightarrow> localStorage \<times> bool" where
  "deleteBudget budgetId ls =
     (let budgets = getBudgets ls;
          filteredBudgets = filter (\<lambda>b. b_id b \<noteq> budgetId) budgets
      in saveToStorage BudgetsKey (setBudgets filteredBudgets) ls)"

definition getBudgetById :: "string option \<Rightarrow> localStorage \<Rightarrow> budget option" where
  "getBudgetById budgetId ls = find (\<lambda>b. b_id b = budgetId) (getBudgets ls)"

section \<open>Categories\<close>

text \<open>
  \<open>getCategories()\<close> is \<open>loadFromStorage(key) || []\<close>: the stored mapping, or an empty
  array when nothing is stored.
\<close>

datatype categories_value = EmptyArray | Mapping categories

definition getCategories :: "localStorage \<Rightarrow> categories_value" where
  "getCategories ls = (case categories_item ls of None \<Rightarrow> EmptyArray | Some c \<Rightarrow> Mapping c)"

definition saveCategories :: "categories \<Rightarrow> localStorage \<Rightarrow> localStorage \<times> bool" where
  "saveCategories c ls = saveToStorage CategoriesKey (setCategories c) ls"

text \<open>
  \<open>categories.length === 0\<close>: true of the empty array. On a mapping \<open>.length\<close> is the
  property of that name, an array of names or \<open>undefined\<close>, and never the number 0.
\<close>

fun length_is_zero :: "categories_value \<Rightarrow> bool" where
  "length_is_zero EmptyArray = True"
| "length_is_zero (Mapping c) = False"

definition defaultCategories :: categories where
  "defaultCategories =
     [(''expense'',
         [''Food & Dining'', ''Transportation'', ''Shopping'', ''Entertainment'',
          ''Bills & Utilities'', ''Healthcare'', ''Education'', ''Travel'', ''Housing'',
          ''Insurance'', ''Personal Care'', ''Gifts & Donations'', ''Other'']),
      (''income'',
         [''Salary'', ''Freelance'', ''Business'', ''Investments'', ''Rental Income'',
          ''Bonuses'', ''Other Income''])]"

definition initializeCategories :: "localStorage \<Rightarrow> localStorage" where
  "initializeCategories ls =
     (let categories = getCategories ls
      in if length_is_zero categories then fst (saveCategories defaultCategories ls) else ls)"

text \<open>The constructor, run once on page load over whatever the browser holds.\<close>

definition StorageManager :: "localStorage \<Rightarrow> localStorage" where
  "StorageManager ls = initializeCategories ls"

text \<open>The store of a browser that never ran the application.\<close>

definition emptyStorage :: "(storage_key \<Rightarrow> bool) \<Rightarrow> localStorage" where
  "emptyStorage throws =
     \<lparr>transactions_item = None, budgets_item = None, categories_item = None,
      setItem_throws = throws\<rparr>"

section \<open>Export and import\<close>

text \<open>
  \<open>importData(data)\<close>: the three guarded writes inside \<open>try\<close>. \<open>saveToStorage\<close> does not
  throw, and its result is dropped; the \<open>catch\<close> is reached only when reading a property
  of \<open>data\<close> throws, that is when \<open>data\<close> is \<open>null\<close> or \<open>undefined\<close> (\<open>None\<close>). A key
  that is missing from the snapshot is \<open>None\<close>; an array or an object, empty or not, is
  truthy.
\<close>

record snapshot =
  s_transactions :: "transaction list option"
  s_budgets :: "budget list option"
  s_categories :: "categories option"

definition importData :: "snapshot option \<Rightarrow> localStorage \<Rightarrow> localStorage \<times> bool" where
  "importData data ls =
     (case data of
        None \<Rightarrow> (ls, False)
      | Some d \<Rightarrow>
          (let ls1 = (case s_transactions d of
                        Some xs \<Rightarrow> fst (saveToStorage TransactionsKey (setTransactions xs) ls)
                      | None \<Rightarrow> ls);
               ls2 = (case s_budgets d of
                        Some xs \<Rightarrow> fst (saveToStorage BudgetsKey (setBudgets xs) ls1)
                      | None \<Rightarrow> ls1);
               ls3 = (case s_categories d of
                        Some c \<Rightarrow> fst (saveToStorage CategoriesKey (setCategories c) ls2)
                      | None \<Rightarrow> ls2)
           in (ls3, True)))"

section \<open>Dates\<close>

text \<open>
  A \<open>Date\<close> object holds a time value: milliseconds since 1 January 1970 UTC, or \<open>NaN\<close>
  for an invalid date. The model writes the time value as \<open>int option\<close>, \<open>None\<close> for
  \<open>NaN\<close>. The functions below are the day and year arithmetic of the ECMAScript
  standard (section "Date Objects"), on which the constructor and the getters of \<open>Date\<close>
  are defined; \<open>div\<close> and \<open>mod\<close> on \<open>int\<close> are the floor division and the modulo of
  the standard. The range check of \<open>TimeClip\<close> (about 275000 years either side of 1970)
  is left out.
\<close>

definition msPerDay :: int where
  "msPerDay = 86400000"

definition Day :: "int \<Rightarrow> int" where
  "Day t = t div msPerDay"

definition TimeWithinDay :: "int \<Rightarrow> int" where
  "TimeWithinDay t = t mod msPerDay"

definition DaysInYear :: "int \<Rightarrow> int" where
  "DaysInYear y =
     (if y mod 4 \<noteq> 0 then 365 else if y mod 100 \<noteq> 0 then 366
      else if y mod 400 \<noteq> 0 then 365 else 366)"

definition DayFromYear :: "int \<Rightarrow> int" where
  "DayFromYear y =
     365 * (y - 1970) + (y - 1969) div 4 - (y - 1901) div 100 + (y - 1601) div 400"

text \<open>
  \<open>YearFromTime(t)\<close> is the largest \<open>y\<close> whose first day is not after \<open>t\<close>. It is
  computed here from the mean length of a year, corrected by one year either way;
  \<open>YearFromDay_correct\<close> below shows that this is the year the standard means.
\<close>

definition YearFromDay :: "int \<Rightarrow> int" where
  "YearFromDay d =
     (let y = 1970 + (400 * d) div 146097
      in if DayFromYear (y + 1) \<le> d then y + 1 else if d < DayFromYear y then y - 1 else y)"

definition YearFromTime :: "int \<Rightarrow> int" where
  "YearFromTime t = YearFromDay (Day t)"

definition InLeapYear :: "int \<Rightarrow> int" where
  "InLeapYear y = (if DaysInYear y = 366 then 1 else 0)"

definition DayWithinYear :: "int \<Rightarrow> int" where
  "DayWithinYear t = Day t - DayFromYear (YearFromTime t)"

text \<open>The number of days of a year before its month \<open>m\<close>, months counted from 0.\<close>

definition DaysBeforeMonth :: "int \<Rightarrow> int \<Rightarrow> int" where
  "DaysBeforeMonth leap m =
     (if m = 0 then 0 else if m = 1 then 31 else if m = 2 then 59 + leap
      else if m = 3 then 90 + leap else if m = 4 then 120 + leap
      else if m = 5 then 151 + leap else if m = 6 then 181 + leap
      else if m = 7 then 212 + leap else if m = 8 then 243 + leap
      else if m = 9 then 273 + leap else if m = 10 then 304 + leap
      else 334 + leap)"

definition MonthFromTime :: "int \<Rightarrow> int" where
  "MonthFromTime t =
     (let d = DayWithinYear t; leap = InLeapYear (YearFromTime t)
      in if d < 31 then 0 else if d < 59 + leap then 1 else if d < 90 + leap then 2
         else if d < 120 + leap then 3 else if d < 151 + leap then 4
         else if d < 181 + leap then 5 else if d < 212 + leap then 6
         else if d < 243 + leap then 7 else if d < 273 + leap then 8
         else if d < 304 + leap then 9 else if d < 334 + leap then 10 else 11)"

definition DateFromTime :: "int \<Rightarrow> int" where
  "DateFromTime t =
     DayWithinYear t - DaysBeforeMonth (InLeapYear (YearFromTime t)) (MonthFromTime t) + 1"

text \<open>
  \<open>MakeDay(year, month, date)\<close>: the month may lie outside 0..11 and the date outside
  the month; both carry over, so that day 0 of a month is the last day of the month
  before.
\<close>

definition MakeDay :: "int \<Rightarrow> int \<Rightarrow> int \<Rightarrow> int" where
  "MakeDay year month dt =
     (let ym = year + month div 12; mn = month mod 12
      in DayFromYear ym + DaysBeforeMonth (InLeapYear ym) mn + dt - 1)"

definition MakeDate :: "int \<Rightarrow> int \<Rightarrow> int" where
  "MakeDate day time = day * msPerDay + time"

text \<open>
  Local time is UTC plus the offset \<open>tz\<close> of the browser's time zone, in milliseconds
  (positive east of Greenwich). The model takes the offset as constant: no daylight
  saving.
\<close>

definition LocalTime :: "int \<Rightarrow> int \<Rightarrow> int" where
  "LocalTime tz t = t + tz"

definition UTC :: "int \<Rightarrow> int \<Rightarrow> int" where
  "UTC tz t = t - tz"

text \<open>
  \<open>new Date(text)\<close> for the text \<open>YYYY-MM-DD\<close> of a date input: a date-only form is
  midnight UTC of that day. A text that names no day of the calendar gives an invalid
  date here (browsers differ on such texts; a date input does not produce them).
\<close>

definition DaysInMonth :: "int \<Rightarrow> int \<Rightarrow> int" where
  "DaysInMonth y m =
     (if m = 2 then 28 + InLeapYear y
      else if m = 4 \<or> m = 6 \<or> m = 9 \<or> m = 11 then 30 else 31)"

definition valid_date :: "date \<Rightarrow> bool" where
  "valid_date d =
     (0 \<le> d_year d \<and> d_year d \<le> 9999 \<and> 1 \<le> d_month d \<and> d_month d \<le> 12
      \<and> 1 \<le> d_day d \<and> d_day d \<le> DaysInMonth (d_year d) (d_month d))"

definition Date_parse :: "date \<Rightarrow> int option" where
  "Date_parse d =
     (if valid_date d
      then Some (MakeDate (MakeDay (d_year d) (d_month d - 1) (d_day d)) 0)
      else None)"

text \<open>
  \<open>new Date(year, monthIndex, day)\<close>: midnight local time; a year from 0 to 99 means
  19xx.
\<close>

definition Date_local :: "int \<Rightarrow> int \<Rightarrow> int \<Rightarrow> int \<Rightarrow> int" where
  "Date_local tz year month dt =
     (let yr = (if 0 \<le> year \<and> year \<le> 99 then 1900 + year else year)
      in UTC tz (MakeDate (MakeDay yr month dt) 0))"

definition getFullYear :: "int \<Rightarrow> int option \<Rightarrow> int option" where
  "getFullYear tz d = map_option (\<lambda>t. YearFromTime (LocalTime tz t)) d"

definition getMonth :: "int \<Rightarrow> int option \<Rightarrow> int option" where
  "getMonth tz d = map_option (\<lambda>t. MonthFromTime (LocalTime tz t)) d"

text \<open>
  \<open>d.setFullYear(year)\<close>: the local month, day and time of day are kept; an invalid
  date counts as local time 0; a \<open>NaN\<close> year gives an invalid date.
\<close>

definition setFullYear :: "int \<Rightarrow> int option \<Rightarrow> int option \<Rightarrow> int option" where
  "setFullYear tz d year =
     (let t = (case d of None \<Rightarrow> 0 | Some u \<Rightarrow> LocalTime tz u)
      in case year of
           None \<Rightarrow> None
         | Some y \<Rightarrow>
             Some (UTC tz (MakeDate (MakeDay y (MonthFromTime t) (DateFromTime t))
                             (TimeWithinDay t))))"

text \<open>
  The range functions pass their arguments to \<open>new Date(...)\<close>. \<open>app.js\<close> calls them
  with the text of a date input (\<open>generateReport\<close>) and with \<open>Date\<close> objects
  (\<open>getPeriodDates\<close>); a \<open>Date\<close> object is copied. Comparing two dates with \<open><=\<close> or
  \<open>>=\<close> compares their time values, and is false when one of them is \<open>NaN\<close>.
\<close>

datatype date_arg = DateString date | DateObject "int option"

fun new_Date :: "date_arg \<Rightarrow> int option" where
  "new_Date (DateString d) = Date_parse d"
| "new_Date (DateObject t) = t"

definition date_ge :: "int option \<Rightarrow> int option \<Rightarrow> bool" where
  "date_ge a b = (case a of None \<Rightarrow> False | Some x \<Rightarrow> (case b of None \<Rightarrow> False | Some y \<Rightarrow> y \<le> x))"

definition date_le :: "int option \<Rightarrow> int option \<Rightarrow> bool" where
  "date_le a b = (case a of None \<Rightarrow> False | Some x \<Rightarrow> (case b of None \<Rightarrow> False | Some y \<Rightarrow> x \<le> y))"

definition inRange :: "date_arg \<Rightarrow> date_arg \<Rightarrow> transaction \<Rightarrow> bool" where
  "inRange startDate endDate t =
     (let transactionDate = Date_parse (t_date t)
      in date_ge transactionDate (new_Date startDate)
         \<and> date_le transactionDate (new_Date endDate))"

definition getTransactionsByDateRange ::
  "date_arg \<Rightarrow> date_arg \<Rightarrow> localStorage \<Rightarrow> transaction list" where
  "getTransactionsByDateRange startDate endDate ls =
     filter (inRange startDate endDate) (getTransactions ls)"

text \<open>
  The order of the calendar on the texts \<open>YYYY-MM-DD\<close>: by year, then month, then day.
  This is what the specification calls comparing as calendar dates.
\<close>

definition calendar_le :: "date \<Rightarrow> date \<Rightarrow> bool" where
  "calendar_le a b =
     (d_year a < d_year b
      \<or> (d_year a = d_year b
          \<and> (d_month a < d_month b \<or> (d_month a = d_month b \<and> d_day a \<le> d_day b))))"

section \<open>Numbers\<close>

text \<open>
  A JavaScript number is an IEEE 754 double: a finite value, which is a rational,
  \<open>Infinity\<close>, \<open>-Infinity\<close> or \<open>NaN\<close>. The sign of a zero is not kept (the two zeros are
  equal under \<open>===\<close> and print alike), so a zero divisor counts as \<open>+0\<close>.
\<close>

datatype number = Num rat | Infinity | NegInfinity | NaN

definition pow2 :: "int \<Rightarrow> rat" where
  "pow2 e = (if 0 \<le> e then 2 ^ nat e else 1 / 2 ^ nat (- e))"

text \<open>The exponent of a positive rational: \<open>pow2 (ilog2 x) \<le> x < pow2 (ilog2 x + 1)\<close>.\<close>

definition ilog2 :: "rat \<Rightarrow> int" where
  "ilog2 x = (if 1 \<le> x then bitlen \<lfloor>x\<rfloor> - 1 else - bitlen (\<lceil>1 / x\<rceil> - 1))"

text \<open>The nearest integer, the even one of two that are equally near.\<close>

definition round_even :: "rat \<Rightarrow> int" where
  "round_even y =
     (let f = \<lfloor>y\<rfloor>; r = y - of_int f
      in if r < 1 / 2 then f else if 1 / 2 < r then f + 1 else if even f then f else f + 1)"

text \<open>
  The double nearest to a rational (round to nearest, ties to even). Doubles have 53
  significant bits, so near \<open>x\<close> they are the multiples of \<open>pow2 (ilog2 x - 52)\<close>; below
  \<open>pow2 (- 1022)\<close> they are the multiples of \<open>pow2 (- 1074)\<close>; a result of \<open>pow2 1024\<close> or
  more is an infinity.
\<close>

definition double_round :: "rat \<Rightarrow> number" where
  "double_round x =
     (if x = 0 then Num 0
      else (let e = max (ilog2 \<bar>x\<bar>) (- 1022);
                q = pow2 (e - 52);
                r = of_int (round_even (x / q)) * q
            in if pow2 1024 \<le> \<bar>r\<bar> then (if 0 < x then Infinity else NegInfinity)
               else Num r))"

text \<open>\<open>parseFloat(t.amount)\<close>, and the reading of a number by \<open>JSON.parse\<close>.\<close>

definition parseFloat :: "rat \<Rightarrow> number" where
  "parseFloat a = double_round a"

text \<open>
  The operators \<open>+\<close>, \<open>-\<close>, \<open>*\<close> and \<open>/\<close> on numbers: the exact result, rounded; the
  cases of \<open>NaN\<close>, of the infinities and of a zero divisor as IEEE 754 has them.
\<close>

fun num_add :: "number \<Rightarrow> number \<Rightarrow> number" where
  "num_add (Num x) (Num y) = double_round (x + y)"
| "num_add NaN b = NaN"
| "num_add a NaN = NaN"
| "num_add Infinity NegInfinity = NaN"
| "num_add NegInfinity Infinity = NaN"
| "num_add Infinity b = Infinity"
| "num_add a Infinity = Infinity"
| "num_add NegInfinity b = NegInfinity"
| "num_add a NegInfinity = NegInfinity"

fun num_neg :: "number \<Rightarrow> number" where
  "num_neg (Num x) = Num (- x)"
| "num_neg Infinity = NegInfinity"
| "num_neg NegInfinity = Infinity"
| "num_neg NaN = NaN"

definition num_sub :: "number \<Rightarrow> number \<Rightarrow> number" where
  "num_sub a b = num_add a (num_neg b)"

fun num_sign :: "number \<Rightarrow> int" where
  "num_sign (Num x) = (if 0 < x then 1 else if x < 0 then - 1 else 0)"
| "num_sign Infinity = 1"
| "num_sign NegInfinity = - 1"
| "num_sign NaN = 0"

definition signed_infinity :: "int \<Rightarrow> number" where
  "signed_infinity s = (if s = 0 then NaN else if 0 < s then Infinity else NegInfinity)"

fun num_mul :: "number \<Rightarrow> number \<Rightarrow> number" where
  "num_mul (Num x) (Num y) = double_round (x * y)"
| "num_mul NaN b = NaN"
| "num_mul a NaN = NaN"
| "num_mul a b = signed_infinity (num_sign a * num_sign b)"

fun num_div :: "number \<Rightarrow> number \<Rightarrow> number" where
  "num_div (Num x) (Num y) =
     (if y = 0 then signed_infinity (num_sign (Num x)) else double_round (x / y))"
| "num_div NaN b = NaN"
| "num_div a NaN = NaN"
| "num_div (Num x) b = Num 0"
| "num_div a (Num y) = (if y < 0 then num_neg a else a)"
| "num_div a b = NaN"

section \<open>Analytics\<close>

text \<open>
  \<open>reduce((total, t) => total + parseFloat(t.amount), 0)\<close>: a left fold from 0.
\<close>

definition sumAmounts :: "transaction list \<Rightarrow> number" where
  "sumAmounts ts = foldl (\<lambda>total t. num_add total (parseFloat (t_amount t))) (Num 0) ts"

text \<open>
  The optional range: \<open>null\<close> is \<open>None\<close>; the filter is applied when both bounds are
  truthy (a \<open>Date\<close> object, or a text, which is not empty here).
\<close>

definition restrictToRange ::
  "date_arg option \<Rightarrow> date_arg option \<Rightarrow> transaction list \<Rightarrow> transaction list" where
  "restrictToRange startDate endDate transactions =
     (case startDate of
        None \<Rightarrow> transactions
      | Some s \<Rightarrow> (case endDate of
                     None \<Rightarrow> transactions
                   | Some e \<Rightarrow> filter (inRange s e) transactions))"

definition getTotalIncome :: "date_arg option \<Rightarrow> date_arg option \<Rightarrow> localStorage \<Rightarrow> number" where
  "getTotalIncome startDate endDate ls =
     sumAmounts (restrictToRange startDate endDate (getTransactionsByType Income ls))"

definition getTotalExpenses :: "date_arg option \<Rightarrow> date_arg option \<Rightarrow> localStorage \<Rightarrow> number" where
  "getTotalExpenses startDate endDate ls =
     sumAmounts (restrictToRange startDate endDate (getTransactionsByType Expense ls))"

definition getNetBalance :: "date_arg option \<Rightarrow> date_arg option \<Rightarrow> localStorage \<Rightarrow> number" where
  "getNetBalance startDate endDate ls =
     num_sub (getTotalIncome startDate endDate ls) (getTotalExpenses startDate endDate ls)"

text \<open>
  An object used as a dictionary: an association list in insertion order. \<open>obj[k] = v\<close>
  overwrites the value of a key that is there and appends a key that is not. (Keys that
  \<open>Object.prototype\<close> defines, and keys that read as array indices, which JavaScript
  lists first, are outside the model.)
\<close>

fun setProp :: "'k \<Rightarrow> 'v \<Rightarrow> ('k \<times> 'v) list \<Rightarrow> ('k \<times> 'v) list" where
  "setProp k v [] = [(k, v)]"
| "setProp k v (p # ps) = (if fst p = k then (k, v) # ps else p # setProp k v ps)"

text \<open>
  The body of the \<open>forEach\<close> of \<open>getSpendingByCategory\<close>: a total that is missing, 0
  or \<open>NaN\<close> is falsy and is set to 0, then the amount is added.
\<close>

definition addToCategory ::
  "(string \<times> number) list \<Rightarrow> transaction \<Rightarrow> (string \<times> number) list" where
  "addToCategory categoryTotals t =
     (let totals0 =
            (if map_of categoryTotals (t_category t) = None
                \<or> map_of categoryTotals (t_category t) = Some (Num 0)
                \<or> map_of categoryTotals (t_category t) = Some NaN
             then setProp (t_category t) (Num 0) categoryTotals
             else categoryTotals)
      in case map_of totals0 (t_category t) of
           None \<Rightarrow> totals0
         | Some sofar \<Rightarrow>
             setProp (t_category t) (num_add sofar (parseFloat (t_amount t))) totals0)"

definition getSpendingByCategory ::
  "date_arg option \<Rightarrow> date_arg option \<Rightarrow> localStorage \<Rightarrow> (string \<times> number) list" where
  "getSpendingByCategory startDate endDate ls =
     foldl addToCategory []
       (restrictToRange startDate endDate (getTransactionsByType Expense ls))"

subsection \<open>Monthly series\<close>

text \<open>
  The keys are \<open>`${year}-${String(i + 1).padStart(2, '0')}`\<close>: the year in decimal, a
  dash, and the month in two digits.
\<close>

definition digit10 :: "nat \<Rightarrow> char" where
  "digit10 d = ''0123456789'' ! d"

fun toString10_nat :: "nat \<Rightarrow> string" where
  "toString10_nat n =
     (if n < 10 then [digit10 n] else toString10_nat (n div 10) @ [digit10 (n mod 10)])"

declare toString10_nat.simps [simp del]

definition numberToString :: "int \<Rightarrow> string" where
  "numberToString n =
     (if n < 0 then CHR ''-'' # toString10_nat (nat (- n)) else toString10_nat (nat n))"

definition padStart2 :: "string \<Rightarrow> string" where
  "padStart2 s = replicate (2 - length s) CHR ''0'' @ s"

definition monthKey :: "int \<Rightarrow> int \<Rightarrow> string" where
  "monthKey year month = numberToString year @ ''-'' @ padStart2 (numberToString month)"

record month_totals =
  income :: number
  expense :: number

text \<open>The \<open>for\<close> loop that sets the twelve months to \<open>{ income: 0, expense: 0 }\<close>.\<close>

definition initMonths :: "int \<Rightarrow> (string \<times> month_totals) list" where
  "initMonths year =
     fold (\<lambda>i monthlyData. setProp (monthKey year (int i + 1)) \<lparr>income = Num 0, expense = Num 0\<rparr> monthlyData)
       [0..<12] []"

text \<open>\<open>monthlyData[monthKey][transaction.type] += parseFloat(transaction.amount)\<close>.\<close>

fun addAmount :: "tx_type \<Rightarrow> rat \<Rightarrow> month_totals \<Rightarrow> month_totals" where
  "addAmount Income a e = e\<lparr>income := num_add (income e) (parseFloat a)\<rparr>"
| "addAmount Expense a e = e\<lparr>expense := num_add (expense e) (parseFloat a)\<rparr>"

text \<open>
  The body of the \<open>forEach\<close>: the year and the month of the transaction's date are read
  in local time; an invalid date has the year \<open>NaN\<close>, which equals no year.
\<close>

definition addToMonth ::
  "int \<Rightarrow> int \<Rightarrow> (string \<times> month_totals) list \<Rightarrow> transaction \<Rightarrow> (string \<times> month_totals) list" where
  "addToMonth tz year monthlyData t =
     (let transactionDate = Date_parse (t_date t)
      in if getFullYear tz transactionDate = Some year
         then (case getMonth tz transactionDate of
                 None \<Rightarrow> monthlyData
               | Some m \<Rightarrow>
                   (case map_of monthlyData (monthKey year (m + 1)) of
                      None \<Rightarrow> monthlyData
                    | Some e \<Rightarrow>
                        setProp (monthKey year (m + 1))
                          (addAmount (t_type t) (t_amount t) e) monthlyData))
         else monthlyData)"

text \<open>
  The month in which the code counts a transaction: the year and month of its date as
  \<open>getFullYear\<close> and \<open>getMonth\<close> read them, in local time; \<open>m\<close> counts from 1.
\<close>

definition fallsIn :: "int \<Rightarrow> int \<Rightarrow> int \<Rightarrow> transaction \<Rightarrow> bool" where
  "fallsIn tz year m t =
     (getFullYear tz (Date_parse (t_date t)) = Some year
      \<and> getMonth tz (Date_parse (t_date t)) = Some (m - 1))"

text \<open>
  \<open>getMonthlySpendingData(year = new Date().getFullYear())\<close>: \<open>None\<close> for a call without
  argument, which takes the year of the clock.
\<close>

definition getMonthlySpendingData ::
  "int \<Rightarrow> int \<Rightarrow> int option \<Rightarrow> localStorage \<Rightarrow> (string \<times> month_totals) list" where
  "getMonthlySpendingData tz now yearArg ls =
     (let year = (case yearArg of None \<Rightarrow> YearFromTime (LocalTime tz now) | Some y \<Rightarrow> y)
      in foldl (addToMonth tz year) (initMonths year) (getTransactions ls))"

subsection \<open>Budget against actual spending\<close>

text \<open>
  The window of a budget. \<open>monthly\<close>: from \<open>new Date(y, m, 1)\<close> to
  \<open>new Date(y, m + 1, 0)\<close> for the year and month of the clock, both midnight local
  time. Otherwise (\<open>annual\<close>): from \<open>new Date(budget.startDate)\<close> to that date with
  \<open>setFullYear(getFullYear() + 1)\<close>.
\<close>

definition budgetWindow :: "int \<Rightarrow> int \<Rightarrow> budget \<Rightarrow> int option \<times> int option" where
  "budgetWindow tz now bg =
     (case b_period bg of
        Monthly \<Rightarrow>
          (Some (Date_local tz (YearFromTime (LocalTime tz now)) (MonthFromTime (LocalTime tz now)) 1),
           Some (Date_local tz (YearFromTime (LocalTime tz now)) (MonthFromTime (LocalTime tz now) + 1) 0))
      | Annual \<Rightarrow>
          (let startDate = Date_parse (b_startDate bg)
           in (startDate,
               setFullYear tz startDate (map_option (\<lambda>y. y + 1) (getFullYear tz startDate)))))"

text \<open>
  One entry of the result. \<open>percentage\<close> divides by the budget's amount; for an amount
  of 0 that is \<open>Infinity\<close>, \<open>-Infinity\<close> or \<open>NaN\<close>.
\<close>

record budget_row =
  r_category :: string
  r_budgetAmount :: number
  r_actualSpent :: number
  r_remaining :: number
  r_percentage :: number

definition inWindow :: "int option \<times> int option \<Rightarrow> transaction \<Rightarrow> bool" where
  "inWindow w t =
     (let transactionDate = Date_parse (t_date t)
      in date_ge transactionDate (fst w) \<and> date_le transactionDate (snd w)
         \<and> t_type t = Expense)"

definition budgetRow :: "int \<Rightarrow> int \<Rightarrow> localStorage \<Rightarrow> budget \<Rightarrow> budget_row" where
  "budgetRow tz now ls bg =
     (let categoryTransactions =
            filter (inWindow (budgetWindow tz now bg)) (getTransactionsByCategory (b_category bg) ls);
          actualSpent = sumAmounts categoryTransactions
      in \<lparr>r_category = b_category bg,
          r_budgetAmount = parseFloat (b_amount bg),
          r_actualSpent = actualSpent,
          r_remaining = num_sub (parseFloat (b_amount bg)) actualSpent,
          r_percentage = num_mul (num_div actualSpent (parseFloat (b_amount bg))) (Num 100)\<rparr>)"

text \<open>
  \<open>getBudgetVsActual()\<close> reads the clock once for every budget: \<open>clock i\<close> is the
  reading for the budget at index \<open>i\<close>.
\<close>

definition getBudgetVsActual :: "int \<Rightarrow> (nat \<Rightarrow> int) \<Rightarrow> localStorage \<Rightarrow> budget_row list" where
  "getBudgetVsActual tz clock ls =
     map (\<lambda>(i, bg). budgetRow tz (clock i) ls bg) (enumerate 0 (getBudgets ls))"

section \<open>Sample data\<close>

text \<open>
  Concrete records and stores on which the theorems below are evaluated. The first three
  transactions are the fixed set of the aggregate examples.
\<close>

definition groceries :: transaction where
  "groceries = \<lparr>t_id = None, t_type = Expense, t_amount = 50, t_category = ''Food'',
     t_description = ''groceries'', t_date = \<lparr>d_year = 2024, d_month = 1, d_day = 5\<rparr>,
     t_createdAt = None, t_updatedAt = None\<rparr>"

definition salary :: transaction where
  "salary = \<lparr>t_id = None, t_type = Income, t_amount = 1000, t_category = ''Salary'',
     t_description = ''salary'', t_date = \<lparr>d_year = 2024, d_month = 1, d_day = 10\<rparr>,
     t_createdAt = None, t_updatedAt = None\<rparr>"

definition foodBudget :: budget where
  "foodBudget = \<lparr>b_id = None, b_category = ''Food'', b_amount = 500, b_period = Annual,
     b_startDate = \<lparr>d_year = 2024, d_month = 1, d_day = 1\<rparr>,
     b_createdAt = None, b_updatedAt = None\<rparr>"

definition sampleStorage :: "bool \<Rightarrow> localStorage" where
  "sampleStorage throws =
     \<lparr>transactions_item = Some [groceries\<lparr>t_id := Some ''a''\<rparr>, salary\<lparr>t_id := Some ''b''\<rparr>],
      budgets_item = Some [foodBudget\<lparr>b_id := Some ''c''\<rparr>],
      categories_item = Some defaultCategories,
      setItem_throws = (\<lambda>k. throws)\<rparr>"

definition lunch :: transaction where
  "lunch = \<lparr>t_id = None, t_type = Expense, t_amount = 30, t_category = ''Food'',
     t_description = ''lunch'', t_date = \<lparr>d_year = 2024, d_month = 2, d_day = 1\<rparr>,
     t_createdAt = None, t_updatedAt = None\<rparr>"

definition fixedStorage :: localStorage where
  "fixedStorage = setTransactions [groceries, salary, lunch] (emptyStorage (\<lambda>k. False))"

definition newYearLunch :: transaction where
  "newYearLunch = lunch\<lparr>t_date := \<lparr>d_year = 2025, d_month = 1, d_day = 1\<rparr>\<rparr>"

definition monthEndLunch :: transaction where
  "monthEndLunch = lunch\<lparr>t_date := \<lparr>d_year = 2024, d_month = 1, d_day = 31\<rparr>\<rparr>"

definition budgetStorage :: "budget \<Rightarrow> transaction \<Rightarrow> localStorage" where
  "budgetStorage bg t = setBudgets [bg] (setTransactions [t] (emptyStorage (\<lambda>k. False)))"

text \<open>Three incomes of 0.1, 0.2 and 0.3, whose sum in doubles is 0.6000000000000001.\<close>

definition dimeStorage :: localStorage where
  "dimeStorage =
     setTransactions [salary\<lparr>t_amount := 1 / 10\<rparr>, salary\<lparr>t_amount := 2 / 10\<rparr>,
                      salary\<lparr>t_amount := 3 / 10\<rparr>] (emptyStorage (\<lambda>k. False))"

text \<open>A \<open>localStorage\<close> that refuses every write, and one that accepts every write.\<close>

definition refusing :: "storage_key \<Rightarrow> bool" where
  "refusing k = True"

definition accepting :: "storage_key \<Rightarrow> bool" where
  "accepting k = False"

section \<open>Lists: first match, replace, append\<close>

lemma findIndex_None_iff: "findIndex P xs = None \<longleftrightarrow> (\<forall>x\<in>set xs. \<not> P x)"
  by (induction xs) auto

lemma findIndex_Some_first:
  "findIndex P xs = Some i \<Longrightarrow> i < length xs \<and> P (xs ! i) \<and> (\<forall>j<i. \<not> P (xs ! j))"
proof (induction xs arbitrary: i)
  case Nil
  then show ?case by simp
next
  case (Cons x xs)
  show ?case
  proof (cases "P x")
    case True
    with Cons.prems show ?thesis by simp
  next
    case False
    with Cons.prems obtain k where k: "findIndex P xs = Some k" "i = Suc k"
      by auto
    from Cons.IH [OF k(1)] False k(2) show ?thesis
      by (auto simp: nth_Cons split: nat.splits)
  qed
qed

lemma find_append_new: "\<forall>x\<in>set xs. \<not> P x \<Longrightarrow> P y \<Longrightarrow> find P (xs @ [y]) = Some y"
  by (induction xs) auto

lemma find_update_first:
  "i < length xs \<Longrightarrow> \<forall>j<i. \<not> P (xs ! j) \<Longrightarrow> P y \<Longrightarrow> find P (xs[i := y]) = Some y"
proof (induction xs arbitrary: i)
  case Nil
  then show ?case by simp
next
  case (Cons x xs)
  show ?case
  proof (cases i)
    case 0
    with Cons.prems show ?thesis by simp
  next
    case (Suc k)
    with Cons.prems have "\<not> P x" by auto
    moreover from Cons.prems Suc have "find P (xs[k := y]) = Some y"
      by (intro Cons.IH) auto
    ultimately show ?thesis using Suc by simp
  qed
qed

lemma toString36_nat_nonempty: "toString36_nat n \<noteq> []"
  by (subst toString36_nat.simps) simp

lemma generateId_nonempty: "generateId now rnd \<noteq> []"
  by (simp add: generateId_def toString36_def toString36_nat_nonempty)

lemma distinct_map_update_first:
  assumes "distinct (map f xs)" "i < length xs" "f (xs ! i) = f y"
  shows "map f (xs[i := y]) = map f xs"
  using assms by (simp add: map_update list_update_same_conv)

lemma distinct_put:
  assumes "distinct (map f xs)"
  shows "distinct (map f (case findIndex (\<lambda>t. f t = f y) xs of Some i \<Rightarrow> xs[i := y] | None \<Rightarrow> xs @ [y]))"
proof (cases "findIndex (\<lambda>t. f t = f y) xs")
  case None
  then have "f y \<notin> f ` set xs" by (auto simp: findIndex_None_iff)
  with assms None show ?thesis by simp
next
  case (Some i)
  from findIndex_Some_first [OF Some] have "i < length xs" "f (xs ! i) = f y" by auto
  with assms Some show ?thesis by (simp add: distinct_map_update_first)
qed

lemma getTransactions_set [simp]: "getTransactions (setTransactions xs ls) = xs"
  by (simp add: getTransactions_def setTransactions_def)

lemma getBudgets_set [simp]: "getBudgets (setBudgets xs ls) = xs"
  by (simp add: getBudgets_def setBudgets_def)

lemma getBudgets_setTransactions [simp]: "getBudgets (setTransactions xs ls) = getBudgets ls"
  by (simp add: getBudgets_def setTransactions_def)

lemma getTransactions_setBudgets [simp]: "getTransactions (setBudgets xs ls) = getTransactions ls"
  by (simp add: getTransactions_def setBudgets_def)

lemma getCategories_setTransactions [simp]: "getCategories (setTransactions xs ls) = getCategories ls"
  by (simp add: getCategories_def setTransactions_def)

lemma getCategories_setBudgets [simp]: "getCategories (setBudgets xs ls) = getCategories ls"
  by (simp add: getCategories_def setBudgets_def)

lemma setItem_throws_setTransactions [simp]:
  "setItem_throws (setTransactions xs ls) = setItem_throws ls"
  by (simp add: setTransactions_def)

lemma setItem_throws_setBudgets [simp]:
  "setItem_throws (setBudgets xs ls) = setItem_throws ls"
  by (simp add: setBudgets_def)

lemma filter_absent: "\<forall>x\<in>set xs. f x \<noteq> i \<Longrightarrow> filter (\<lambda>x. f x \<noteq> i) xs = xs"
  by (induction xs) auto

lemma distinct_putTransaction:
  "distinct (map t_id xs) \<Longrightarrow> distinct (map t_id (putTransaction tx xs))"
  unfolding putTransaction_def by (rule distinct_put)

lemma distinct_putBudget:
  "distinct (map b_id xs) \<Longrightarrow> distinct (map b_id (putBudget bg xs))"
  unfolding putBudget_def by (rule distinct_put)

lemma find_putTransaction:
  "find (\<lambda>t. t_id t = t_id tx) (putTransaction tx xs) = Some tx"
proof (cases "findIndex (\<lambda>t. t_id t = t_id tx) xs")
  case None
  then have "\<forall>t\<in>set xs. \<not> t_id t = t_id tx"
    by (simp add: findIndex_None_iff)
  then have "find (\<lambda>t. t_id t = t_id tx) (xs @ [tx]) = Some tx"
    by (rule find_append_new) simp
  with None show ?thesis
    by (simp add: putTransaction_def)
next
  case (Some k)
  from findIndex_Some_first [OF Some] show ?thesis
    by (simp add: putTransaction_def Some find_update_first)
qed

lemma putTransaction_existing:
  assumes "\<exists>t\<in>set xs. t_id t = t_id tx"
  shows "\<exists>k<length xs. t_id (xs ! k) = t_id tx \<and> (\<forall>j<k. t_id (xs ! j) \<noteq> t_id tx)
           \<and> putTransaction tx xs = xs[k := tx]"
proof -
  from assms obtain k where k: "findIndex (\<lambda>t. t_id t = t_id tx) xs = Some k"
    by (cases "findIndex (\<lambda>t. t_id t = t_id tx) xs") (auto simp: findIndex_None_iff)
  from findIndex_Some_first [OF k] k show ?thesis
    by (auto simp: putTransaction_def)
qed

lemma importData_always_true: "snd (importData (Some d) ls)"
  by (simp add: importData_def Let_def)

lemma toString36_nonempty: "toString36 n \<noteq> []"
  by (simp add: toString36_def toString36_nat_nonempty)

lemma put_first_or_append:
  "(\<exists>k<length xs. f (xs ! k) = f y \<and> (\<forall>j<k. f (xs ! j) \<noteq> f y)
       \<and> (case findIndex (\<lambda>t. f t = f y) xs of Some i \<Rightarrow> xs[i := y] | None \<Rightarrow> xs @ [y])
           = xs[k := y])
   \<or> ((\<forall>x\<in>set xs. f x \<noteq> f y)
       \<and> (case findIndex (\<lambda>t. f t = f y) xs of Some i \<Rightarrow> xs[i := y] | None \<Rightarrow> xs @ [y])
           = xs @ [y])"
proof (cases "findIndex (\<lambda>t. f t = f y) xs")
  case None
  then have "\<forall>x\<in>set xs. f x \<noteq> f y"
    by (simp add: findIndex_None_iff)
  with None show ?thesis
    by simp
next
  case (Some i)
  from findIndex_Some_first [OF Some] Some show ?thesis
    by auto
qed

lemma putTransaction_first_or_append:
  "(\<exists>k<length xs. t_id (xs ! k) = t_id tx \<and> (\<forall>j<k. t_id (xs ! j) \<noteq> t_id tx)
       \<and> putTransaction tx xs = xs[k := tx])
   \<or> ((\<forall>t\<in>set xs. t_id t \<noteq> t_id tx) \<and> putTransaction tx xs = xs @ [tx])"
  unfolding putTransaction_def by (rule put_first_or_append)

lemma putBudget_first_or_append:
  "(\<exists>k<length xs. b_id (xs ! k) = b_id bg \<and> (\<forall>j<k. b_id (xs ! j) \<noteq> b_id bg)
       \<and> putBudget bg xs = xs[k := bg])
   \<or> ((\<forall>b\<in>set xs. b_id b \<noteq> b_id bg) \<and> putBudget bg xs = xs @ [bg])"
  unfolding putBudget_def by (rule put_first_or_append)

text \<open>The clock reading 1700000000000 in base 36, and the reading 0.\<close>

lemma id_texts: "toString36 1700000000000 = ''loyw3v28''" "toString36 0 = ''0''"
  by (simp_all add: toString36_def toString36_nat.simps digit36_def)

section \<open>Import\<close>

text \<open>
  C1. The claim: \<open>importData\<close> reports failure as soon as one of its writes fails. The
  code drops the result of every \<open>saveToStorage\<close> and returns \<open>true\<close>: with a
  \<open>setItem\<close> that throws, the write of the transactions fails, the store keeps its
  content, and \<open>importData\<close> still answers \<open>true\<close>.
\<close>

theorem importData_true_on_failed_write:
  "saveToStorage TransactionsKey (setTransactions [groceries]) (emptyStorage (\<lambda>k. True))
     = (emptyStorage (\<lambda>k. True), False)
   \<and> importData (Some \<lparr>s_transactions = Some [groceries], s_budgets = None, s_categories = None\<rparr>)
        (emptyStorage (\<lambda>k. True))
     = (emptyStorage (\<lambda>k. True), True)"
  by (simp add: importData_def saveToStorage_def emptyStorage_def)

section \<open>Save, look up, delete\<close>



text \<open>
  C7. When the write succeeds, deleting an id that no record carries succeeds and leaves
  all three collections as they were; deleting the same id a second time succeeds again
  and leaves the collection as the first delete left it. The same for budgets.
\<close>

theorem delete_idempotent:
  "(\<not> setItem_throws ls TransactionsKey \<longrightarrow>
      ((\<forall>t\<in>set (getTransactions ls). t_id t \<noteq> i) \<longrightarrow>
          snd (deleteTransaction i ls)
          \<and> getTransactions (fst (deleteTransaction i ls)) = getTransactions ls
          \<and> getBudgets (fst (deleteTransaction i ls)) = getBudgets ls
          \<and> getCategories (fst (deleteTransaction i ls)) = getCategories ls)
      \<and> snd (deleteTransaction i ls)
      \<and> snd (deleteTransaction i (fst (deleteTransaction i ls)))
      \<and> getTransactions (fst (deleteTransaction i (fst (deleteTransaction i ls))))
          = getTransactions (fst (deleteTransaction i ls)))
   \<and> (\<not> setItem_throws ls BudgetsKey \<longrightarrow>
      ((\<forall>b\<in>set (getBudgets ls). b_id b \<noteq> j) \<longrightarrow>
          snd (deleteBudget j ls)
          \<and> getBudgets (fst (deleteBudget j ls)) = getBudgets ls
          \<and> getTransactions (fst (deleteBudget j ls)) = getTransactions ls
          \<and> getCategories (fst (deleteBudget j ls)) = getCategories ls)
      \<and> snd (deleteBudget j ls)
      \<and> snd (deleteBudget j (fst (deleteBudget j ls)))
      \<and> getBudgets (fst (deleteBudget j (fst (deleteBudget j ls))))
          = getBudgets (fst (deleteBudget j ls)))"
  by (simp add: deleteTransaction_def deleteBudget_def saveToStorage_def Let_def filter_absent)

theorem delete_idempotent_witness:
  "\<not> setItem_throws (sampleStorage False) TransactionsKey
   \<and> \<not> (\<exists>t\<in>set (getTransactions (sampleStorage False)). t_id t = Some ''zz'')
   \<and> snd (deleteTransaction (Some ''zz'') (sampleStorage False))
   \<and> getTransactions (fst (deleteTransaction (Some ''zz'') (sampleStorage False)))
       = getTransactions (sampleStorage False)
   \<and> \<not> setItem_throws (sampleStorage False) BudgetsKey
   \<and> \<not> (\<exists>b\<in>set (getBudgets (sampleStorage False)). b_id b = Some ''zz'')
   \<and> snd (deleteBudget (Some ''zz'') (sampleStorage False))
   \<and> getBudgets (fst (deleteBudget (Some ''zz'') (sampleStorage False)))
       = getBudgets (sampleStorage False)"
proof -
  have h: "\<not> setItem_throws (sampleStorage False) TransactionsKey"
    "\<forall>t\<in>set (getTransactions (sampleStorage False)). t_id t \<noteq> Some ''zz''"
    "\<not> setItem_throws (sampleStorage False) BudgetsKey"
    "\<forall>b\<in>set (getBudgets (sampleStorage False)). b_id b \<noteq> Some ''zz''"
    by (simp_all add: sampleStorage_def getTransactions_def getBudgets_def groceries_def
        salary_def foodBudget_def)
  have n: "\<not> (\<exists>t\<in>set (getTransactions (sampleStorage False)). t_id t = Some ''zz'')"
    "\<not> (\<exists>b\<in>set (getBudgets (sampleStorage False)). b_id b = Some ''zz'')"
    using h(2,4) by blast+
  note r = delete_idempotent [of "sampleStorage False" "Some ''zz''" "Some ''zz''"]
  note r1 = r [THEN conjunct1, THEN mp, OF h(1), THEN conjunct1, THEN mp, OF h(2)]
  note r2 = r [THEN conjunct2, THEN mp, OF h(3), THEN conjunct1, THEN mp, OF h(4)]
  from h(1) n(1) r1 h(3) n(2) r2 show ?thesis
    by (intro conjI) (erule conjE | assumption)+
qed

text \<open>
  C8. A record passed without id comes back from \<open>saveTransaction\<close> (and from
  \<open>saveBudget\<close>) with a generated id, \<open>createdAt\<close> and \<open>updatedAt\<close> set, whether the write
  succeeds or not. The id is the clock in base 36 followed by the random digits; it is
  never empty, so the record now counts as saved. When \<open>setItem\<close> throws, the store is
  unchanged and the call returns \<open>false\<close>, and the caller's object carries the three
  fields all the same.
\<close>

theorem save_sets_id_regardless:
  "(falsy_id (t_id tx) \<longrightarrow>
      fst (snd (saveTransaction clock rnd tx ls))
        = tx\<lparr>t_id := Some (toString36 (clock 0) @ rnd), t_createdAt := Some (clock 1),
             t_updatedAt := Some (clock 2)\<rparr>
      \<and> toString36 (clock 0) @ rnd \<noteq> []
      \<and> \<not> falsy_id (t_id (fst (snd (saveTransaction clock rnd tx ls))))
      \<and> (setItem_throws ls TransactionsKey \<longrightarrow>
           fst (saveTransaction clock rnd tx ls) = ls
           \<and> \<not> snd (snd (saveTransaction clock rnd tx ls))))
   \<and> (falsy_id (b_id bg) \<longrightarrow>
      fst (snd (saveBudget clock rnd bg ls))
        = bg\<lparr>b_id := Some (toString36 (clock 0) @ rnd), b_createdAt := Some (clock 1),
             b_updatedAt := Some (clock 2)\<rparr>
      \<and> toString36 (clock 0) @ rnd \<noteq> []
      \<and> \<not> falsy_id (b_id (fst (snd (saveBudget clock rnd bg ls))))
      \<and> (setItem_throws ls BudgetsKey \<longrightarrow>
           fst (saveBudget clock rnd bg ls) = ls
           \<and> \<not> snd (snd (saveBudget clock rnd bg ls))))"
  by (simp add: saveTransaction_def saveBudget_def stampTransaction_def stampBudget_def
      saveToStorage_def Let_def generateId_def falsy_id_def toString36_nonempty)

theorem save_sets_id_regardless_witness:
  "falsy_id (t_id groceries) \<and> setItem_throws (sampleStorage True) TransactionsKey
   \<and> saveTransaction (\<lambda>n. 1700000000000 + int n) ''k3x9'' groceries (sampleStorage True)
       = (sampleStorage True,
          groceries\<lparr>t_id := Some ''loyw3v28k3x9'',
                    t_createdAt := Some 1700000000001, t_updatedAt := Some 1700000000002\<rparr>,
          False)
   \<and> falsy_id (b_id foodBudget) \<and> setItem_throws (sampleStorage True) BudgetsKey
   \<and> saveBudget (\<lambda>n. 1700000000000 + int n) ''k3x9'' foodBudget (sampleStorage True)
       = (sampleStorage True,
          foodBudget\<lparr>b_id := Some ''loyw3v28k3x9'',
                    b_createdAt := Some 1700000000001, b_updatedAt := Some 1700000000002\<rparr>,
          False)"
proof -
  have h: "falsy_id (t_id groceries)" "setItem_throws (sampleStorage True) TransactionsKey"
    "falsy_id (b_id foodBudget)" "setItem_throws (sampleStorage True) BudgetsKey"
    by (simp_all add: falsy_id_def groceries_def foodBudget_def sampleStorage_def)
  note r = save_sets_id_regardless [of groceries "\<lambda>n. 1700000000000 + int n" "''k3x9''"
      "sampleStorage True" foodBudget]
  note t = r [THEN conjunct1, THEN mp, OF h(1)]
  note b = r [THEN conjunct2, THEN mp, OF h(3)]
  have t1: "fst (snd (saveTransaction (\<lambda>n. 1700000000000 + int n) ''k3x9'' groceries
                (sampleStorage True)))
              = groceries\<lparr>t_id := Some ''loyw3v28k3x9'', t_createdAt := Some 1700000000001,
                          t_updatedAt := Some 1700000000002\<rparr>"
    using t [THEN conjunct1] by (simp add: id_texts)
  have t2: "fst (saveTransaction (\<lambda>n. 1700000000000 + int n) ''k3x9'' groceries
                (sampleStorage True)) = sampleStorage True"
    "\<not> snd (snd (saveTransaction (\<lambda>n. 1700000000000 + int n) ''k3x9'' groceries
                (sampleStorage True)))"
    using t [THEN conjunct2, THEN conjunct2, THEN conjunct2, THEN mp, OF h(2)] by simp_all
  have b1: "fst (snd (saveBudget (\<lambda>n. 1700000000000 + int n) ''k3x9'' foodBudget
                (sampleStorage True)))
              = foodBudget\<lparr>b_id := Some ''loyw3v28k3x9'', b_createdAt := Some 1700000000001,
                           b_updatedAt := Some 1700000000002\<rparr>"
    using b [THEN conjunct1] by (simp add: id_texts)
  have b2: "fst (saveBudget (\<lambda>n. 1700000000000 + int n) ''k3x9'' foodBudget
                (sampleStorage True)) = sampleStorage True"
    "\<not> snd (snd (saveBudget (\<lambda>n. 1700000000000 + int n) ''k3x9'' foodBudget
                (sampleStorage True)))"
    using b [THEN conjunct2, THEN conjunct2, THEN conjunct2, THEN mp, OF h(4)] by simp_all
  have t3: "saveTransaction (\<lambda>n. 1700000000000 + int n) ''k3x9'' groceries (sampleStorage True)
       = (sampleStorage True,
          groceries\<lparr>t_id := Some ''loyw3v28k3x9'',
                    t_createdAt := Some 1700000000001, t_updatedAt := Some 1700000000002\<rparr>,
          False)"
    using t1 t2 by (simp add: prod_eq_iff)
  have b3: "saveBudget (\<lambda>n. 1700000000000 + int n) ''k3x9'' foodBudget (sampleStorage True)
       = (sampleStorage True,
          foodBudget\<lparr>b_id := Some ''loyw3v28k3x9'',
                    b_createdAt := Some 1700000000001, b_updatedAt := Some 1700000000002\<rparr>,
          False)"
    using b1 b2 by (simp add: prod_eq_iff)
  from h(1,2) t3 h(3,4) b3 show ?thesis
    by (intro conjI)
qed




section \<open>The fresh store\<close>

text \<open>
  C9 (amended). The constructor run over an empty \<open>localStorage\<close> leaves transactions and
  budgets reading as empty arrays. When the store accepts the seeding write,
  \<open>getCategories()\<close> returns the default mapping, with the thirteen expense and the seven
  income categories below; when the store refuses the write nothing is seeded and
  \<open>getCategories()\<close> returns an empty array. \<open>initializeCategories\<close> leaves a store that
  holds a category mapping exactly as it is, and where it changes the store, no mapping
  was stored and the change is the write of the defaults.
\<close>

theorem empty_state_defaults:
  "(\<not> throws CategoriesKey \<longrightarrow>
      getCategories (StorageManager (emptyStorage throws))
        = Mapping
            [(''expense'',
                [''Food & Dining'', ''Transportation'', ''Shopping'', ''Entertainment'',
                 ''Bills & Utilities'', ''Healthcare'', ''Education'', ''Travel'', ''Housing'',
                 ''Insurance'', ''Personal Care'', ''Gifts & Donations'', ''Other'']),
             (''income'',
                [''Salary'', ''Freelance'', ''Business'', ''Investments'', ''Rental Income'',
                 ''Bonuses'', ''Other Income''])])
   \<and> (throws CategoriesKey \<longrightarrow>
      getCategories (StorageManager (emptyStorage throws)) = EmptyArray)
   \<and> getTransactions (StorageManager (emptyStorage throws)) = []
   \<and> getBudgets (StorageManager (emptyStorage throws)) = []
   \<and> (categories_item ls = Some c \<longrightarrow> initializeCategories ls = ls)
   \<and> (initializeCategories ls \<noteq> ls \<longrightarrow>
        categories_item ls = None
        \<and> initializeCategories ls
            = setCategories
                [(''expense'',
                    [''Food & Dining'', ''Transportation'', ''Shopping'', ''Entertainment'',
                     ''Bills & Utilities'', ''Healthcare'', ''Education'', ''Travel'',
                     ''Housing'', ''Insurance'', ''Personal Care'', ''Gifts & Donations'',
                     ''Other'']),
                 (''income'',
                    [''Salary'', ''Freelance'', ''Business'', ''Investments'',
                     ''Rental Income'', ''Bonuses'', ''Other Income''])] ls)"
  by (auto simp: StorageManager_def initializeCategories_def getCategories_def
      saveCategories_def saveToStorage_def emptyStorage_def setCategories_def
      getTransactions_def getBudgets_def defaultCategories_def Let_def split: option.splits)

theorem empty_state_defaults_witness:
  "\<not> accepting CategoriesKey
   \<and> getCategories (StorageManager (emptyStorage accepting))
       = Mapping
            [(''expense'',
                [''Food & Dining'', ''Transportation'', ''Shopping'', ''Entertainment'',
                 ''Bills & Utilities'', ''Healthcare'', ''Education'', ''Travel'', ''Housing'',
                 ''Insurance'', ''Personal Care'', ''Gifts & Donations'', ''Other'']),
             (''income'',
                [''Salary'', ''Freelance'', ''Business'', ''Investments'', ''Rental Income'',
                 ''Bonuses'', ''Other Income''])]
   \<and> refusing CategoriesKey
   \<and> getCategories (StorageManager (emptyStorage refusing)) = EmptyArray
   \<and> categories_item (StorageManager (emptyStorage accepting)) = Some defaultCategories
   \<and> initializeCategories (StorageManager (emptyStorage accepting))
       = StorageManager (emptyStorage accepting)
   \<and> initializeCategories (emptyStorage accepting) \<noteq> emptyStorage accepting
   \<and> categories_item (emptyStorage accepting) = None"
proof -
  have h0: "\<not> accepting CategoriesKey" and h0': "refusing CategoriesKey"
    by (simp_all add: accepting_def refusing_def)
  have h1: "categories_item (StorageManager (emptyStorage accepting)) = Some defaultCategories"
    by (simp add: StorageManager_def initializeCategories_def getCategories_def
        saveCategories_def saveToStorage_def emptyStorage_def setCategories_def accepting_def)
  have "categories_item (initializeCategories (emptyStorage accepting))
          \<noteq> categories_item (emptyStorage accepting)"
    by (simp add: initializeCategories_def getCategories_def
        saveCategories_def saveToStorage_def emptyStorage_def setCategories_def accepting_def)
  then have h2: "initializeCategories (emptyStorage accepting) \<noteq> emptyStorage accepting"
    by (rule contrapos_nn) (erule arg_cong)
  note r = empty_state_defaults [of accepting "StorageManager (emptyStorage accepting)"
      defaultCategories]
  note r1 = r [THEN conjunct1, THEN mp, OF h0]
  note r1' = empty_state_defaults [of refusing "emptyStorage refusing" defaultCategories,
      THEN conjunct2, THEN conjunct1, THEN mp, OF h0']
  note r2 = r [THEN conjunct2, THEN conjunct2, THEN conjunct2, THEN conjunct2, THEN conjunct1,
      THEN mp, OF h1]
  note r3 = empty_state_defaults [of accepting "emptyStorage accepting" defaultCategories,
      THEN conjunct2, THEN conjunct2, THEN conjunct2, THEN conjunct2, THEN conjunct2,
      THEN mp, OF h2, THEN conjunct1]
  from h0 r1 h0' r1' h1 r2 h2 r3 show ?thesis by (intro conjI)
qed

text \<open>
  The claim as it was stated has no condition on the write: on an empty store that
  refuses every write the constructor seeds nothing, and \<open>getCategories()\<close> is the empty
  array, not the default mapping.
\<close>

theorem empty_state_defaults_counterexample:
  "getCategories (StorageManager (emptyStorage refusing)) = EmptyArray
   \<and> getCategories (StorageManager (emptyStorage refusing)) \<noteq> Mapping defaultCategories
   \<and> categories_item (StorageManager (emptyStorage refusing)) = None"
  by (simp add: StorageManager_def initializeCategories_def getCategories_def
      saveCategories_def saveToStorage_def emptyStorage_def refusing_def)

section \<open>The calendar\<close>

text \<open>
  The first day of a year: each year adds its length, so \<open>DayFromYear\<close> is strictly
  increasing, and \<open>YearFromDay\<close> returns the one year that contains the day.
\<close>

lemma div_step:
  fixes a k :: int
  assumes "0 < k"
  shows "(a + 1) div k = (if (a + 1) mod k = 0 then a div k + 1 else a div k)"
proof -
  define q r where "q = a div k" and "r = a mod k"
  have a: "a = k * q + r" "0 \<le> r" "r < k"
    using assms by (simp_all add: q_def r_def)
  show ?thesis
  proof (cases "r + 1 = k")
    case True
    with a have e: "a + 1 = k * (q + 1) + 0"
      by (simp add: algebra_simps)
    have "(a + 1) div k = q + 1"
      by (rule int_div_pos_eq [OF e]) (use assms in simp_all)
    moreover have "(a + 1) mod k = 0"
      by (rule int_mod_pos_eq [OF e]) (use assms in simp_all)
    ultimately show ?thesis by (simp add: q_def)
  next
    case False
    with a have e: "a + 1 = k * q + (r + 1)" and b: "0 \<le> r + 1" "r + 1 < k"
      by simp_all
    have "(a + 1) div k = q"
      by (rule int_div_pos_eq [OF e b])
    moreover have "(a + 1) mod k = r + 1"
      by (rule int_mod_pos_eq [OF e b])
    moreover have "r + 1 \<noteq> 0"
      using a by simp
    ultimately show ?thesis by (simp add: q_def)
  qed
qed

lemma mod_shift_4: "((y::int) - 1968) mod 4 = y mod 4"
  by presburger

lemma mod_shift_100: "((y::int) - 1900) mod 100 = y mod 100"
proof -
  have "y - 1900 = y + (- 19) * 100" by simp
  then show ?thesis by (simp only: mod_mult_self1)
qed

lemma mod_shift_400: "((y::int) - 1600) mod 400 = y mod 400"
proof -
  have "y - 1600 = y + (- 4) * 400" by simp
  then show ?thesis by (simp only: mod_mult_self1)
qed

lemma mod_400_100: "(y::int) mod 400 = 0 \<Longrightarrow> y mod 100 = 0"
  by fastforce

lemma mod_100_4: "(y::int) mod 100 = 0 \<Longrightarrow> y mod 4 = 0"
  by fastforce

lemma DayFromYear_Suc: "DayFromYear (y + 1) = DayFromYear y + DaysInYear y"
proof -
  have d4: "(y - 1968) div 4 = (if y mod 4 = 0 then (y - 1969) div 4 + 1 else (y - 1969) div 4)"
    using div_step [of 4 "y - 1969"] mod_shift_4 [of y] by simp
  have d100: "(y - 1900) div 100
                = (if y mod 100 = 0 then (y - 1901) div 100 + 1 else (y - 1901) div 100)"
    using div_step [of 100 "y - 1901"] mod_shift_100 [of y] by simp
  have d400: "(y - 1600) div 400
                = (if y mod 400 = 0 then (y - 1601) div 400 + 1 else (y - 1601) div 400)"
    using div_step [of 400 "y - 1601"] mod_shift_400 [of y] by simp
  have "DayFromYear (y + 1)
          = 365 * (y - 1969) + (y - 1968) div 4 - (y - 1900) div 100 + (y - 1600) div 400"
    by (simp add: DayFromYear_def)
  then show ?thesis
    unfolding DayFromYear_def DaysInYear_def d4 d100 d400
    using mod_400_100 [of y] mod_100_4 [of y] by auto
qed

lemma div_lower: "k * ((a::int) div k) \<le> a" if "0 < k"
  using that by (metis mult_div_mod_eq pos_mod_sign add.commute add_increasing2 order_refl)

lemma div_upper: "(a::int) < k * (a div k) + k" if "0 < k"
  using that by (metis mult_div_mod_eq pos_mod_bound add_strict_left_mono)

lemma DayFromYear_bounds:
  "146097 * y - 287811697 < 400 * DayFromYear y"
  "400 * DayFromYear y < 146097 * y - 287810497"
proof -
  define q4 q100 q400 where "q4 = (y - 1969) div 4" and "q100 = (y - 1901) div 100"
    and "q400 = (y - 1601) div 400"
  have b: "4 * q4 \<le> y - 1969" "y - 1969 < 4 * q4 + 4"
    "100 * q100 \<le> y - 1901" "y - 1901 < 100 * q100 + 100"
    "400 * q400 \<le> y - 1601" "y - 1601 < 400 * q400 + 400"
    unfolding q4_def q100_def q400_def by (simp_all add: div_lower div_upper)
  have d: "400 * DayFromYear y = 146000 * y - 287620000 + 400 * q4 - 400 * q100 + 400 * q400"
    by (simp add: DayFromYear_def q4_def q100_def q400_def)
  show "146097 * y - 287811697 < 400 * DayFromYear y"
    unfolding d using b by linarith
  show "400 * DayFromYear y < 146097 * y - 287810497"
    unfolding d using b by linarith
qed

lemma YearFromDay_correct:
  "DayFromYear (YearFromDay d) \<le> d \<and> d < DayFromYear (YearFromDay d + 1)"
proof -
  define e where "e = (400 * d) div 146097"
  define hi lo where "hi = DayFromYear (e + 1972)" and "lo = DayFromYear (e + 1969)"
  have e: "146097 * e \<le> 400 * d" "400 * d < 146097 * e + 146097"
    unfolding e_def by (simp_all add: div_lower div_upper)
  have "146097 * e + 291587 < 400 * hi"
    using DayFromYear_bounds(1) [of "e + 1972"] by (simp add: hi_def)
  with e have "d < hi" by linarith
  moreover have "400 * lo < 146097 * e - 145504"
    using DayFromYear_bounds(2) [of "e + 1969"] by (simp add: lo_def)
  with e have "lo \<le> d" by linarith
  ultimately show ?thesis
    by (simp add: YearFromDay_def Let_def e_def hi_def lo_def add.commute)
qed

lemma DayFromYear_mono: "y \<le> y' \<Longrightarrow> DayFromYear y + 365 * (y' - y) \<le> DayFromYear y'"
proof (induction y' rule: int_ge_induct)
  case base
  show ?case by simp
next
  case (step i)
  with DaysInYear_def [of i] DayFromYear_Suc [of i] show ?case
    by (simp split: if_splits)
qed

lemma DayFromYear_strict_mono: "y < y' \<Longrightarrow> DayFromYear y < DayFromYear y'"
  using DayFromYear_mono [of y y'] by simp

lemma DayFromYear_le: "y \<le> y' \<Longrightarrow> DayFromYear y \<le> DayFromYear y'"
  using DayFromYear_mono [of y y'] by simp

lemma YearFromDay_largest: "DayFromYear y \<le> d \<Longrightarrow> y \<le> YearFromDay d"
proof (rule ccontr)
  assume a: "DayFromYear y \<le> d" and "\<not> y \<le> YearFromDay d"
  then have "YearFromDay d + 1 \<le> y" by simp
  then have "DayFromYear (YearFromDay d + 1) \<le> DayFromYear y"
    by (rule DayFromYear_le)
  with a YearFromDay_correct [of d] show False by simp
qed

lemma month_cases:
  "1 \<le> m \<Longrightarrow> m \<le> 12 \<Longrightarrow>
   m = 1 \<or> m = 2 \<or> m = 3 \<or> m = 4 \<or> m = 5 \<or> m = 6 \<or> m = 7 \<or> m = 8 \<or> m = 9
   \<or> m = 10 \<or> m = 11 \<or> m = (12::int)"
  by arith

lemma InLeapYear_cases: "InLeapYear y = 0 \<or> InLeapYear y = 1"
  by (simp add: InLeapYear_def)

lemma DaysInYear_InLeapYear: "DaysInYear y = 365 + InLeapYear y"
  by (simp add: InLeapYear_def DaysInYear_def)

lemma MakeDay_valid:
  assumes "valid_date a"
  shows "MakeDay (d_year a) (d_month a - 1) (d_day a)
           = DayFromYear (d_year a) + DaysBeforeMonth (InLeapYear (d_year a)) (d_month a - 1)
             + d_day a - 1"
proof -
  from assms have "0 \<le> d_month a - 1" "d_month a - 1 < 12"
    by (simp_all add: valid_date_def)
  then have "(d_month a - 1) div 12 = 0" "(d_month a - 1) mod 12 = d_month a - 1"
    by simp_all
  then show ?thesis by (simp add: MakeDay_def Let_def)
qed

text \<open>The day of the year of a valid date, counted from 0.\<close>

lemma day_of_year_bounds:
  assumes "valid_date a"
  shows "0 \<le> DaysBeforeMonth (InLeapYear (d_year a)) (d_month a - 1) + d_day a - 1"
    and "DaysBeforeMonth (InLeapYear (d_year a)) (d_month a - 1) + d_day a - 1
           < DaysInYear (d_year a)"
proof -
  from assms have m: "d_month a = 1 \<or> d_month a = 2 \<or> d_month a = 3 \<or> d_month a = 4
      \<or> d_month a = 5 \<or> d_month a = 6 \<or> d_month a = 7 \<or> d_month a = 8 \<or> d_month a = 9
      \<or> d_month a = 10 \<or> d_month a = 11 \<or> d_month a = 12"
    by (intro month_cases) (simp_all add: valid_date_def)
  from assms have d: "1 \<le> d_day a" "d_day a \<le> DaysInMonth (d_year a) (d_month a)"
    by (simp_all add: valid_date_def)
  from m d InLeapYear_cases [of "d_year a"]
  show "0 \<le> DaysBeforeMonth (InLeapYear (d_year a)) (d_month a - 1) + d_day a - 1"
    by (elim disjE) (simp_all add: DaysBeforeMonth_def DaysInMonth_def)
  from m d InLeapYear_cases [of "d_year a"]
  show "DaysBeforeMonth (InLeapYear (d_year a)) (d_month a - 1) + d_day a - 1
           < DaysInYear (d_year a)"
    by (elim disjE) (simp_all add: DaysBeforeMonth_def DaysInMonth_def DaysInYear_InLeapYear)
qed

lemma day_of_year_mono:
  assumes "1 \<le> m" "m < m'" "m' \<le> 12" "d \<le> DaysInMonth y m" "1 \<le> d'"
  shows "DaysBeforeMonth (InLeapYear y) (m - 1) + d < DaysBeforeMonth (InLeapYear y) (m' - 1) + d'"
proof -
  from assms have m: "m = 1 \<or> m = 2 \<or> m = 3 \<or> m = 4 \<or> m = 5 \<or> m = 6 \<or> m = 7
      \<or> m = 8 \<or> m = 9 \<or> m = 10 \<or> m = 11 \<or> m = 12"
    by (intro month_cases) simp_all
  from assms have m': "m' = 1 \<or> m' = 2 \<or> m' = 3 \<or> m' = 4 \<or> m' = 5 \<or> m' = 6 \<or> m' = 7
      \<or> m' = 8 \<or> m' = 9 \<or> m' = 10 \<or> m' = 11 \<or> m' = 12"
    by (intro month_cases) simp_all
  from m m' InLeapYear_cases [of y] assms show ?thesis
    by (elim disjE) (simp_all add: DaysBeforeMonth_def DaysInMonth_def)
qed

lemma MakeDay_less:
  assumes "valid_date a" "valid_date b" "\<not> calendar_le b a"
  shows "MakeDay (d_year a) (d_month a - 1) (d_day a) < MakeDay (d_year b) (d_month b - 1) (d_day b)"
proof -
  consider (year) "d_year a < d_year b"
    | (month) "d_year a = d_year b" "d_month a < d_month b"
    | (day) "d_year a = d_year b" "d_month a = d_month b" "d_day a < d_day b"
    using assms(3) unfolding calendar_le_def by linarith
  then show ?thesis
  proof cases
    case year
    then have "d_year a + 1 \<le> d_year b" by simp
    then have "DayFromYear (d_year a + 1) \<le> DayFromYear (d_year b)"
      by (rule DayFromYear_le)
    with day_of_year_bounds [OF assms(1)] day_of_year_bounds [OF assms(2)]
    show ?thesis
      unfolding MakeDay_valid [OF assms(1)] MakeDay_valid [OF assms(2)]
      by (simp add: DayFromYear_Suc)
  next
    case month
    with assms(1,2) have "DaysBeforeMonth (InLeapYear (d_year a)) (d_month a - 1) + d_day a
        < DaysBeforeMonth (InLeapYear (d_year a)) (d_month b - 1) + d_day b"
      by (intro day_of_year_mono) (simp_all add: valid_date_def)
    then show ?thesis
      unfolding MakeDay_valid [OF assms(1)] MakeDay_valid [OF assms(2)]
      by (simp add: month(1) [symmetric])
  next
    case day
    then show ?thesis
      unfolding MakeDay_valid [OF assms(1)] MakeDay_valid [OF assms(2)]
      by simp
  qed
qed

lemma calendar_le_total: "calendar_le a b \<or> calendar_le b a"
  by (auto simp: calendar_le_def)

lemma calendar_le_antisym:
  "calendar_le a b \<Longrightarrow> calendar_le b a \<Longrightarrow>
   d_year a = d_year b \<and> d_month a = d_month b \<and> d_day a = d_day b"
  by (auto simp: calendar_le_def)

lemma MakeDay_le_iff:
  assumes "valid_date a" "valid_date b"
  shows "MakeDay (d_year a) (d_month a - 1) (d_day a) \<le> MakeDay (d_year b) (d_month b - 1) (d_day b)
         \<longleftrightarrow> calendar_le a b"
proof
  assume le: "MakeDay (d_year a) (d_month a - 1) (d_day a)
                \<le> MakeDay (d_year b) (d_month b - 1) (d_day b)"
  show "calendar_le a b"
  proof (rule ccontr)
    assume "\<not> calendar_le a b"
    from MakeDay_less [OF assms(2) assms(1) this] le show False by simp
  qed
next
  assume c: "calendar_le a b"
  show "MakeDay (d_year a) (d_month a - 1) (d_day a)
          \<le> MakeDay (d_year b) (d_month b - 1) (d_day b)"
  proof (cases "calendar_le b a")
    case True
    from calendar_le_antisym [OF c True] show ?thesis by simp
  next
    case False
    from MakeDay_less [OF assms False] show ?thesis by simp
  qed
qed

lemma Date_parse_le_iff:
  assumes "valid_date a" "valid_date b"
  shows "date_le (Date_parse a) (Date_parse b) \<longleftrightarrow> calendar_le a b"
    and "date_ge (Date_parse b) (Date_parse a) \<longleftrightarrow> calendar_le a b"
  using assms MakeDay_le_iff [OF assms]
  by (simp_all add: date_le_def date_ge_def Date_parse_def MakeDate_def msPerDay_def)

text \<open>
  Read back in a time zone at or east of Greenwich, the midnight UTC of a day of the
  calendar has the year, month and day it was made from.
\<close>

lemma YearFromDay_unique:
  assumes "DayFromYear y \<le> n" "n < DayFromYear (y + 1)"
  shows "YearFromDay n = y"
proof (rule antisym)
  show "y \<le> YearFromDay n"
    using assms(1) by (rule YearFromDay_largest)
  show "YearFromDay n \<le> y"
  proof (rule ccontr)
    assume "\<not> YearFromDay n \<le> y"
    then have "y + 1 \<le> YearFromDay n" by simp
    then have "DayFromYear (y + 1) \<le> DayFromYear (YearFromDay n)"
      by (rule DayFromYear_le)
    with YearFromDay_correct [of n] assms(2) show False by simp
  qed
qed

lemma Day_of_local_midnight:
  assumes "0 \<le> tz" "tz < msPerDay"
  shows "Day (LocalTime tz (MakeDate n 0)) = n"
    and "TimeWithinDay (LocalTime tz (MakeDate n 0)) = tz"
proof -
  have e: "LocalTime tz (MakeDate n 0) = msPerDay * n + tz"
    by (simp add: LocalTime_def MakeDate_def)
  show "Day (LocalTime tz (MakeDate n 0)) = n"
    unfolding Day_def by (rule int_div_pos_eq [OF e assms])
  show "TimeWithinDay (LocalTime tz (MakeDate n 0)) = tz"
    unfolding TimeWithinDay_def by (rule int_mod_pos_eq [OF e assms])
qed

lemma local_fields_of_valid_date:
  assumes v: "valid_date a" and tz: "0 \<le> tz" "tz < msPerDay"
  defines "t \<equiv> LocalTime tz (MakeDate (MakeDay (d_year a) (d_month a - 1) (d_day a)) 0)"
  shows "YearFromTime t = d_year a" and "MonthFromTime t = d_month a - 1"
    and "DateFromTime t = d_day a"
proof -
  define doy where "doy = DaysBeforeMonth (InLeapYear (d_year a)) (d_month a - 1) + d_day a - 1"
  have day: "Day t = DayFromYear (d_year a) + doy"
    unfolding t_def Day_of_local_midnight(1) [OF tz] MakeDay_valid [OF v] doy_def by simp
  from day_of_year_bounds [OF v] have b: "0 \<le> doy" "doy < DaysInYear (d_year a)"
    by (simp_all add: doy_def)
  show y: "YearFromTime t = d_year a"
    unfolding YearFromTime_def day
    by (rule YearFromDay_unique) (use b in \<open>simp_all add: DayFromYear_Suc\<close>)
  have dwy: "DayWithinYear t = doy"
    by (simp add: DayWithinYear_def y day)
  from v have m: "d_month a = 1 \<or> d_month a = 2 \<or> d_month a = 3 \<or> d_month a = 4
      \<or> d_month a = 5 \<or> d_month a = 6 \<or> d_month a = 7 \<or> d_month a = 8 \<or> d_month a = 9
      \<or> d_month a = 10 \<or> d_month a = 11 \<or> d_month a = 12"
    by (intro month_cases) (simp_all add: valid_date_def)
  from v have d: "1 \<le> d_day a" "d_day a \<le> DaysInMonth (d_year a) (d_month a)"
    by (simp_all add: valid_date_def)
  from m d InLeapYear_cases [of "d_year a"]
  show mo: "MonthFromTime t = d_month a - 1"
    unfolding MonthFromTime_def dwy y doy_def Let_def
    by (elim disjE) (simp_all add: DaysBeforeMonth_def DaysInMonth_def)
  show "DateFromTime t = d_day a"
    by (simp add: DateFromTime_def dwy y mo doy_def)
qed

section \<open>Numbers\<close>

lemma pow2_powi: "pow2 e = 2 powi e"
  by (simp add: pow2_def power_int_def inverse_eq_divide power_one_over)

lemma pow2_pos: "0 < pow2 e"
  by (simp add: pow2_def)

lemma pow2_mono: "e \<le> e' \<Longrightarrow> pow2 e \<le> pow2 e'"
  unfolding pow2_powi by (rule power_int_increasing) simp_all

lemma ilog2_bounds:
  assumes "0 < y"
  shows "pow2 (ilog2 y) \<le> y \<and> y < pow2 (ilog2 y + 1)"
proof (cases "1 \<le> y")
  case True
  define n where "n = \<lfloor>y\<rfloor>"
  from True have n: "0 < n"
    by (simp add: n_def)
  from bitlen_bounds [OF n] have b: "2 ^ nat (bitlen n - 1) \<le> n" "n + 1 \<le> 2 ^ nat (bitlen n)"
    by simp_all
  from n have bl: "1 \<le> bitlen n"
    using bitlen_eq_zero_iff [of n] bitlen_nonneg [of n] by linarith
  have "(of_int (2 ^ nat (bitlen n - 1)) :: rat) \<le> of_int n"
    using b(1) by (simp only: of_int_le_iff)
  also have "\<dots> \<le> y"
    by (simp add: n_def)
  finally have lo: "pow2 (bitlen n - 1) \<le> y"
    using bl by (simp add: pow2_def)
  have "y < of_int (n + 1)"
    unfolding n_def by (rule floor_correct [THEN conjunct2])
  also have "\<dots> \<le> of_int (2 ^ nat (bitlen n))"
    using b(2) by (simp only: of_int_le_iff)
  finally have hi: "y < pow2 (bitlen n - 1 + 1)"
    using bl by (simp add: pow2_def)
  from lo hi True show ?thesis
    by (simp add: ilog2_def n_def)
next
  case False
  define z where "z = 1 / y"
  define m where "m = \<lceil>z\<rceil> - 1"
  from False assms have z: "1 < z"
    by (simp add: z_def)
  from ceiling_correct [of z] have c: "of_int \<lceil>z\<rceil> - 1 < z" "z \<le> of_int \<lceil>z\<rceil>"
    by blast+
  have mz: "of_int m < z" "z \<le> of_int m + 1"
    using c by (simp_all add: m_def)
  from z mz(2) have "(0::rat) < of_int m"
    by linarith
  then have m: "0 < m"
    by simp
  from bitlen_bounds [OF m] have b: "2 ^ nat (bitlen m - 1) \<le> m" "m + 1 \<le> 2 ^ nat (bitlen m)"
    by simp_all
  from m have bl: "1 \<le> bitlen m"
    using bitlen_eq_zero_iff [of m] bitlen_nonneg [of m] by linarith
  have "z \<le> of_int (m + 1)"
    using mz(2) by simp
  also have "\<dots> \<le> of_int (2 ^ nat (bitlen m))"
    using b(2) by (simp only: of_int_le_iff)
  finally have "z \<le> 2 ^ nat (bitlen m)"
    by simp
  then have lo: "pow2 (- bitlen m) \<le> y"
    using bl assms by (simp add: pow2_def z_def field_simps)
  have "(of_int (2 ^ nat (bitlen m - 1)) :: rat) \<le> of_int m"
    using b(1) by (simp only: of_int_le_iff)
  also note mz(1)
  finally have "2 ^ nat (bitlen m - 1) < z"
    by simp
  then have hi: "y < pow2 (- bitlen m + 1)"
    using bl assms False by (simp add: pow2_def z_def field_simps)
  from lo hi False show ?thesis
    by (simp add: ilog2_def m_def z_def)
qed

lemma ilog2_unique:
  assumes "pow2 e \<le> y" "y < pow2 (e + 1)"
  shows "ilog2 y = e"
proof -
  from assms(1) pow2_pos [of e] have "0 < y"
    by linarith
  from ilog2_bounds [OF this] have b: "pow2 (ilog2 y) \<le> y" "y < pow2 (ilog2 y + 1)"
    by simp_all
  show ?thesis
  proof (rule ccontr)
    assume "ilog2 y \<noteq> e"
    then consider "ilog2 y + 1 \<le> e" | "e + 1 \<le> ilog2 y"
      by linarith
    then show False
    proof cases
      case 1
      from pow2_mono [OF 1] b(2) assms(1) show False by linarith
    next
      case 2
      from pow2_mono [OF 2] b(1) assms(2) show False by linarith
    qed
  qed
qed

lemma round_even_near:
  assumes "\<bar>y - of_int m\<bar> < 1 / 2"
  shows "round_even y = m"
proof (cases "of_int m \<le> y")
  case True
  with assms have "\<lfloor>y\<rfloor> = m"
    by (intro floor_unique) linarith+
  with assms True show ?thesis
    by (simp add: round_even_def Let_def)
next
  case False
  from assms False have a: "of_int m - 1 \<le> y" "y < of_int m"
    by linarith+
  then have f: "\<lfloor>y\<rfloor> = m - 1"
    by (intro floor_unique) simp_all
  from assms False have h: "1 / 2 < y - (of_int m - 1)"
    by linarith
  show ?thesis
    unfolding round_even_def Let_def f using h a by simp
qed

lemma round_even_tie:
  assumes "y = of_int f + 1 / 2"
  shows "round_even y = (if even f then f else f + 1)"
proof -
  have "\<lfloor>y\<rfloor> = f"
    unfolding assms by (intro floor_unique) simp_all
  then show ?thesis
    by (simp add: round_even_def Let_def assms)
qed

text \<open>
  Rounding with the exponent known: \<open>x\<close> with \<open>pow2 e \<le> \<bar>x\<bar> < pow2 (e + 1)\<close> rounds to
  the nearest multiple of \<open>pow2 (e - 52)\<close>.
\<close>

lemma double_round_exp:
  assumes "pow2 e \<le> \<bar>x\<bar>" "\<bar>x\<bar> < pow2 (e + 1)" "- 1022 \<le> e"
    and "round_even (x / pow2 (e - 52)) = m"
    and "\<bar>of_int m * pow2 (e - 52)\<bar> < pow2 1024"
  shows "double_round x = Num (of_int m * pow2 (e - 52))"
proof -
  from assms(1) pow2_pos [of e] have nz: "x \<noteq> 0"
    by auto
  have il: "ilog2 \<bar>x\<bar> = e"
    using assms(1,2) by (rule ilog2_unique)
  from assms(3) have mx: "max e (- 1022) = e"
    by simp
  show ?thesis
    unfolding double_round_def Let_def il mx assms(4)
    using nz assms(5) by simp
qed

text \<open>Integers below \<open>2 ^ 53\<close> are doubles.\<close>

lemma round_even_of_int [simp]: "round_even (of_int m) = m"
  by (simp add: round_even_def)

lemma bitlen_int_bounds:
  assumes "0 < n" "n < 2 ^ 53"
  shows "1 \<le> bitlen n" "bitlen n \<le> 53"
proof -
  from bitlen_bounds [OF assms(1)] have b: "2 ^ nat (bitlen n - 1) \<le> n" "n < 2 ^ nat (bitlen n)"
    by simp_all
  show "1 \<le> bitlen n"
    using assms(1) bitlen_eq_zero_iff [of n] bitlen_nonneg [of n] by linarith
  from b(1) assms(2) have "(2::int) ^ nat (bitlen n - 1) < 2 ^ 53"
    by linarith
  then have "nat (bitlen n - 1) < 53"
    by (simp only: power_strict_increasing_iff) 
  then show "bitlen n \<le> 53"
    by linarith
qed

lemma double_round_int:
  assumes "\<bar>n\<bar> < 2 ^ 53"
  shows "double_round (of_int n) = Num (of_int n)"
proof (cases "n = 0")
  case True
  then show ?thesis by (simp add: double_round_def)
next
  case False
  define a where "a = \<bar>n\<bar>"
  from False assms have a: "0 < a" "a < 2 ^ 53"
    by (simp_all add: a_def)
  define k where "k = nat (53 - bitlen a)"
  from bitlen_int_bounds [OF a] have bl: "1 \<le> bitlen a" "bitlen a \<le> 53" .
  have abs: "\<bar>of_int n :: rat\<bar> = of_int a"
    by (simp add: a_def)
  have one: "(1::rat) \<le> of_int a"
    using a(1) by simp
  have il: "ilog2 (of_int a) = bitlen a - 1"
    using one by (simp add: ilog2_def)
  have e: "max (bitlen a - 1) (- 1022) = bitlen a - 1"
    using bl by simp
  have q: "pow2 (bitlen a - 1 - 52) = 1 / 2 ^ k"
    using bl by (simp add: pow2_def k_def)
  have "(of_int n :: rat) / (1 / 2 ^ k) = of_int (n * 2 ^ k)"
    by simp
  then have r: "of_int (round_even (of_int n / (1 / 2 ^ k))) * (1 / 2 ^ k) = (of_int n :: rat)"
    by (simp only: round_even_of_int) simp
  have "of_int a < (2::rat) ^ 53"
    using a(2) by (metis of_int_less_iff of_int_numeral of_int_power)
  also have "\<dots> \<le> 2 ^ 1024"
    by (rule power_increasing) simp_all
  finally have small: "\<not> pow2 1024 \<le> (of_int a :: rat)"
    by (simp add: pow2_def)
  show ?thesis
    unfolding double_round_def Let_def abs il e q r
    using False small by simp
qed

lemma double_round_Ints:
  "x \<in> \<int> \<Longrightarrow> \<bar>x\<bar> < 9007199254740992 \<Longrightarrow> double_round x = Num x"
proof -
  assume "x \<in> \<int>" and b: "\<bar>x\<bar> < 9007199254740992"
  then obtain n where n: "x = of_int n"
    by (auto elim: Ints_cases)
  from b have "\<bar>n\<bar> < 2 ^ 53"
    unfolding n by (simp flip: of_int_abs)
  then show ?thesis
    unfolding n by (rule double_round_int)
qed

lemma parseFloat_Ints:
  "x \<in> \<int> \<Longrightarrow> \<bar>x\<bar> < 9007199254740992 \<Longrightarrow> parseFloat x = Num x"
  by (simp add: parseFloat_def double_round_Ints)

text \<open>The doubles nearest to 0.1, 0.2 and 0.3, and their sum from the left.\<close>

lemma tenth_evals:
  "parseFloat (1 / 10) = Num (3602879701896397 / 36028797018963968)"
  "parseFloat (2 / 10) = Num (3602879701896397 / 18014398509481984)"
  "parseFloat (3 / 10) = Num (5404319552844595 / 18014398509481984)"
proof -
  have "round_even (1 / 10 / pow2 (- 4 - 52)) = 7205759403792794"
    by (rule round_even_near) (simp add: pow2_def)
  from double_round_exp [OF _ _ _ this]
  show "parseFloat (1 / 10) = Num (3602879701896397 / 36028797018963968)"
    by (simp add: parseFloat_def pow2_def)
  have "round_even (2 / 10 / pow2 (- 3 - 52)) = 7205759403792794"
    by (rule round_even_near) (simp add: pow2_def)
  from double_round_exp [OF _ _ _ this]
  show "parseFloat (2 / 10) = Num (3602879701896397 / 18014398509481984)"
    by (simp add: parseFloat_def pow2_def)
  have "round_even (3 / 10 / pow2 (- 2 - 52)) = 5404319552844595"
    by (rule round_even_near) (simp add: pow2_def)
  from double_round_exp [OF _ _ _ this]
  show "parseFloat (3 / 10) = Num (5404319552844595 / 18014398509481984)"
    by (simp add: parseFloat_def pow2_def)
qed

lemma tenth_sums:
  "num_add (Num (3602879701896397 / 36028797018963968)) (Num (3602879701896397 / 18014398509481984))
     = Num (1351079888211149 / 4503599627370496)"
  "num_add (Num (1351079888211149 / 4503599627370496)) (Num (5404319552844595 / 18014398509481984))
     = Num (1351079888211149 / 2251799813685248)"
proof -
  have "round_even ((3602879701896397 / 36028797018963968 + 3602879701896397 / 18014398509481984)
          / pow2 (- 2 - 52)) = 5404319552844596"
    using round_even_tie [of _ 5404319552844595] by (simp add: pow2_def)
  from double_round_exp [OF _ _ _ this]
  show "num_add (Num (3602879701896397 / 36028797018963968))
          (Num (3602879701896397 / 18014398509481984))
        = Num (1351079888211149 / 4503599627370496)"
    by (simp add: pow2_def)
  have "round_even ((1351079888211149 / 4503599627370496 + 5404319552844595 / 18014398509481984)
          / pow2 (- 1 - 52)) = 5404319552844596"
    using round_even_tie [of _ 5404319552844595] by (simp add: pow2_def)
  from double_round_exp [OF _ _ _ this]
  show "num_add (Num (1351079888211149 / 4503599627370496))
          (Num (5404319552844595 / 18014398509481984))
        = Num (1351079888211149 / 2251799813685248)"
    by (simp add: pow2_def)
qed

lemma percentage_eval: "num_mul (num_div (Num 30) (Num 500)) (Num 100) = Num 6"
proof -
  have "round_even (30 / 500 / pow2 (- 5 - 52)) = 8646911284551352"
    by (rule round_even_near) (simp add: pow2_def)
  from double_round_exp [OF _ _ _ this]
  have d: "double_round (30 / 500) = Num (1080863910568919 / 18014398509481984)"
    by (simp add: pow2_def)
  have "round_even (1080863910568919 / 18014398509481984 * 100 / pow2 (2 - 52)) = 6755399441055744"
    by (rule round_even_near) (simp add: pow2_def)
  from double_round_exp [OF _ _ _ this]
  have "double_round (1080863910568919 / 18014398509481984 * 100) = Num 6"
    by (simp add: pow2_def)
  with d show ?thesis
    by simp
qed

section \<open>Aggregates\<close>

lemma tenth_zero:
  "num_add (Num 0) (Num (3602879701896397 / 36028797018963968))
     = Num (3602879701896397 / 36028797018963968)"
proof -
  have "round_even ((0 + 3602879701896397 / 36028797018963968) / pow2 (- 4 - 52))
          = 7205759403792794"
    by (rule round_even_near) (simp add: pow2_def)
  from double_round_exp [OF _ _ _ this] show ?thesis
    by (simp add: pow2_def)
qed

lemma sumAmounts_snoc:
  "sumAmounts (ts @ [t]) = num_add (sumAmounts ts) (parseFloat (t_amount t))"
  by (simp add: sumAmounts_def)

lemma sum_list_abs_nonneg: "0 \<le> sum_list (map (\<lambda>t. \<bar>t_amount t\<bar>) ts)"
  by (induction ts) simp_all

lemma sum_list_abs_filter_le:
  "sum_list (map (\<lambda>t. \<bar>t_amount t\<bar>) (filter P ts)) \<le> sum_list (map (\<lambda>t. \<bar>t_amount t\<bar>) ts)"
proof (induction ts)
  case Nil
  show ?case by simp
next
  case (Cons t ts)
  have "0 \<le> \<bar>t_amount t\<bar>" by simp
  with Cons show ?case by (simp del: abs_ge_zero)
qed

lemma abs_sum_list_le:
  "\<bar>sum_list (map t_amount ts)\<bar> \<le> sum_list (map (\<lambda>t. \<bar>t_amount t\<bar>) ts)"
proof (induction ts)
  case Nil
  show ?case by simp
next
  case (Cons t ts)
  then show ?case by simp
qed

lemma sum_list_Ints: "\<forall>t\<in>set ts. t_amount t \<in> \<int> \<Longrightarrow> sum_list (map t_amount ts) \<in> \<int>"
  by (induction ts) simp_all

lemma foldl_exact:
  assumes "\<forall>t\<in>set ts. t_amount t \<in> \<int>" "a \<in> \<int>"
    and "\<bar>a\<bar> + sum_list (map (\<lambda>t. \<bar>t_amount t\<bar>) ts) < 9007199254740992"
  shows "foldl (\<lambda>total t. num_add total (parseFloat (t_amount t))) (Num a) ts
           = Num (a + sum_list (map t_amount ts))"
  using assms
proof (induction ts arbitrary: a)
  case Nil
  then show ?case by simp
next
  case (Cons t ts)
  from sum_list_abs_nonneg [of ts] Cons.prems(3)
  have b: "\<bar>t_amount t\<bar> < 9007199254740992" "\<bar>a + t_amount t\<bar> < 9007199254740992"
    by simp_all
  from Cons.prems(1) have i: "t_amount t \<in> \<int>"
    by simp
  have step: "num_add (Num a) (parseFloat (t_amount t)) = Num (a + t_amount t)"
    using i b Cons.prems(2) by (simp add: parseFloat_def double_round_Ints)
  have "foldl (\<lambda>total t. num_add total (parseFloat (t_amount t))) (Num (a + t_amount t)) ts
          = Num (a + t_amount t + sum_list (map t_amount ts))"
    using Cons.prems i by (intro Cons.IH) simp_all
  then show ?case
    by (simp add: step add.assoc)
qed

lemma sumAmounts_exact:
  assumes "\<forall>t\<in>set ts. t_amount t \<in> \<int>"
    and "sum_list (map (\<lambda>t. \<bar>t_amount t\<bar>) ts) < 9007199254740992"
  shows "sumAmounts ts = Num (sum_list (map t_amount ts))"
  using foldl_exact [of ts 0] assms by (simp add: sumAmounts_def)

lemma sumAmounts_filter_exact:
  assumes "\<forall>t\<in>set ts. t_amount t \<in> \<int>"
    and "sum_list (map (\<lambda>t. \<bar>t_amount t\<bar>) ts) < 9007199254740992"
  shows "sumAmounts (filter P ts) = Num (sum_list (map t_amount (filter P ts)))"
proof (rule sumAmounts_exact)
  show "\<forall>t\<in>set (filter P ts). t_amount t \<in> \<int>"
    using assms(1) by simp
  show "sum_list (map (\<lambda>t. \<bar>t_amount t\<bar>) (filter P ts)) < 9007199254740992"
    using sum_list_abs_filter_le [of P ts] assms(2) by linarith
qed

text \<open>The difference of two exact integer totals is exact.\<close>

lemma net_exact:
  assumes "\<forall>t\<in>set ts. t_amount t \<in> \<int>"
    and "sum_list (map (\<lambda>t. \<bar>t_amount t\<bar>) ts) < 9007199254740992"
  shows "num_sub (Num (sum_list (map t_amount (filter (\<lambda>t. t_type t = Income) ts))))
                 (Num (sum_list (map t_amount (filter (\<lambda>t. t_type t = Expense) ts))))
         = Num (sum_list (map t_amount (filter (\<lambda>t. t_type t = Income) ts))
                - sum_list (map t_amount (filter (\<lambda>t. t_type t = Expense) ts)))"
proof -
  let ?i = "filter (\<lambda>t. t_type t = Income) ts" and ?e = "filter (\<lambda>t. t_type t = Expense) ts"
  have split: "sum_list (map (\<lambda>t. \<bar>t_amount t\<bar>) ?i) + sum_list (map (\<lambda>t. \<bar>t_amount t\<bar>) ?e)
                 = sum_list (map (\<lambda>t. \<bar>t_amount t\<bar>) ts)"
  proof (induction ts)
    case Nil
    show ?case by simp
  next
    case (Cons t ts)
    then show ?case by (cases "t_type t") simp_all
  qed
  have "\<bar>sum_list (map t_amount ?i) - sum_list (map t_amount ?e)\<bar> < 9007199254740992"
    using abs_sum_list_le [of ?i] abs_sum_list_le [of ?e] split assms(2) by linarith
  moreover have "sum_list (map t_amount ?i) - sum_list (map t_amount ?e) \<in> \<int>"
    using assms(1) by (intro Ints_diff sum_list_Ints) simp_all
  ultimately show ?thesis
    by (simp add: num_sub_def double_round_Ints)
qed



section \<open>Date ranges\<close>




section \<open>Monthly series\<close>

lemma map_fst_setProp_existing:
  "k \<in> fst ` set ps \<Longrightarrow> map fst (setProp k v ps) = map fst ps"
  by (induction ps) auto

lemma setProp_new: "k \<notin> fst ` set ps \<Longrightarrow> setProp k v ps = ps @ [(k, v)]"
  by (induction ps) auto

lemma map_of_setProp: "map_of (setProp k v ps) k' = (if k' = k then Some v else map_of ps k')"
  by (induction ps) auto

lemma fold_setProp_distinct:
  "distinct (map fst ps @ map f is) \<Longrightarrow>
   fold (\<lambda>i md. setProp (f i) z md) is ps = ps @ map (\<lambda>i. (f i, z)) is"
proof (induction "is" arbitrary: ps)
  case Nil
  then show ?case by simp
next
  case (Cons i "is")
  from Cons.prems have new: "f i \<notin> fst ` set ps"
    by auto
  from Cons.prems have "distinct (map fst (ps @ [(f i, z)]) @ map f is)"
    by auto
  from Cons.IH [OF this] new show ?case
    by (simp add: setProp_new)
qed

lemma month_texts:
  "padStart2 (numberToString 1) = ''01''" "padStart2 (numberToString 2) = ''02''"
  "padStart2 (numberToString 3) = ''03''" "padStart2 (numberToString 4) = ''04''"
  "padStart2 (numberToString 5) = ''05''" "padStart2 (numberToString 6) = ''06''"
  "padStart2 (numberToString 7) = ''07''" "padStart2 (numberToString 8) = ''08''"
  "padStart2 (numberToString 9) = ''09''" "padStart2 (numberToString 10) = ''10''"
  "padStart2 (numberToString 11) = ''11''" "padStart2 (numberToString 12) = ''12''"
  by (simp_all add: padStart2_def numberToString_def toString10_nat.simps digit10_def)

lemma monthKey_inj:
  assumes "1 \<le> m" "m \<le> 12" "1 \<le> m'" "m' \<le> 12"
  shows "monthKey y m = monthKey y m' \<longleftrightarrow> m = m'"
proof -
  from assms have m: "m = 1 \<or> m = 2 \<or> m = 3 \<or> m = 4 \<or> m = 5 \<or> m = 6 \<or> m = 7
      \<or> m = 8 \<or> m = 9 \<or> m = 10 \<or> m = 11 \<or> m = 12"
    by (intro month_cases)
  from assms have m': "m' = 1 \<or> m' = 2 \<or> m' = 3 \<or> m' = 4 \<or> m' = 5 \<or> m' = 6 \<or> m' = 7
      \<or> m' = 8 \<or> m' = 9 \<or> m' = 10 \<or> m' = 11 \<or> m' = 12"
    by (intro month_cases)
  from m m' show ?thesis
    by (elim disjE) (simp_all add: monthKey_def month_texts)
qed

lemma upt_12: "[0..<12] = [0, 1, 2, 3, 4, 5, 6, 7, 8, 9, 10, 11]"
  by (simp add: upt_rec)

lemma monthKeys_distinct: "distinct (map (\<lambda>i. monthKey y (int i + 1)) [0..<12])"
  by (simp add: upt_12 monthKey_def month_texts)

lemma initMonths_eq:
  "initMonths year = map (\<lambda>i. (monthKey year (int i + 1), \<lparr>income = Num 0, expense = Num 0\<rparr>)) [0..<12]"
  unfolding initMonths_def
  using fold_setProp_distinct [of "[]" "\<lambda>i. monthKey year (int i + 1)" "[0..<12]"
      "\<lparr>income = Num 0, expense = Num 0\<rparr>"] monthKeys_distinct [of year]
  by simp

lemma MonthFromTime_range: "0 \<le> MonthFromTime t \<and> MonthFromTime t \<le> 11"
  by (simp add: MonthFromTime_def Let_def)

lemma map_fst_addToMonth: "map fst (addToMonth tz year md t) = map fst md"
proof -
  have "map fst (setProp k v md) = map fst md" if "map_of md k = Some e" for k v e
    using that by (intro map_fst_setProp_existing) (auto dest: map_of_SomeD intro: rev_image_eqI)
  then show ?thesis
    by (simp add: addToMonth_def Let_def split: option.splits)
qed

lemma map_fst_foldl_addToMonth:
  "map fst (foldl (addToMonth tz year) md ts) = map fst md"
  by (induction ts arbitrary: md) (simp_all add: map_fst_addToMonth)

lemma map_of_addToMonth_other:
  assumes "1 \<le> m" "m \<le> 12" "\<not> fallsIn tz year m t"
  shows "map_of (addToMonth tz year md t) (monthKey year m) = map_of md (monthKey year m)"
proof (cases "getFullYear tz (Date_parse (t_date t)) = Some year")
  case False
  then show ?thesis by (simp add: addToMonth_def)
next
  case True
  then obtain u where u: "Date_parse (t_date t) = Some u"
    by (cases "Date_parse (t_date t)") (simp_all add: getFullYear_def)
  define m' where "m' = MonthFromTime (LocalTime tz u)"
  have gm: "getMonth tz (Date_parse (t_date t)) = Some m'"
    by (simp add: getMonth_def u m'_def)
  with True assms(3) have "m' + 1 \<noteq> m"
    by (auto simp: fallsIn_def)
  moreover from MonthFromTime_range [of "LocalTime tz u"] have "1 \<le> m' + 1" "m' + 1 \<le> 12"
    by (simp_all add: m'_def)
  ultimately have "monthKey year m \<noteq> monthKey year (m' + 1)"
    using assms(1,2) by (simp add: monthKey_inj)
  then show ?thesis
    by (simp add: addToMonth_def True gm map_of_setProp split: option.splits)
qed

lemma map_of_foldl_addToMonth_other:
  assumes "1 \<le> m" "m \<le> 12" "\<forall>t\<in>set ts. \<not> fallsIn tz year m t"
  shows "map_of (foldl (addToMonth tz year) md ts) (monthKey year m) = map_of md (monthKey year m)"
  using assms(3)
  by (induction ts arbitrary: md) (simp_all add: map_of_addToMonth_other assms(1,2))

lemma addToMonth_other_year:
  "getFullYear tz (Date_parse (t_date t)) \<noteq> Some year \<Longrightarrow> addToMonth tz year md t = md"
  by (simp add: addToMonth_def)

lemma foldl_addToMonth_other_year:
  "\<forall>t\<in>set ts. getFullYear tz (Date_parse (t_date t)) \<noteq> Some year \<Longrightarrow>
   foldl (addToMonth tz year) md ts = md"
  by (induction ts arbitrary: md) (simp_all add: addToMonth_other_year)

lemma map_of_initMonths:
  assumes "1 \<le> m" "m \<le> 12"
  shows "map_of (initMonths year) (monthKey year m) = Some \<lparr>income = Num 0, expense = Num 0\<rparr>"
proof -
  from assms have m: "m = 1 \<or> m = 2 \<or> m = 3 \<or> m = 4 \<or> m = 5 \<or> m = 6 \<or> m = 7
      \<or> m = 8 \<or> m = 9 \<or> m = 10 \<or> m = 11 \<or> m = 12"
    by (intro month_cases)
  then show ?thesis
    by (elim disjE) (simp_all add: initMonths_eq upt_12 monthKey_def month_texts)
qed

text \<open>
  The twelve keys are always there, in order; a month in which the code counts no
  transaction keeps the zeros it was set to.
\<close>

lemma monthly_series_complete:
  "map fst (getMonthlySpendingData tz now (Some year) ls)
     = map (\<lambda>i. monthKey year (int i + 1)) [0..<12]
   \<and> length (getMonthlySpendingData tz now (Some year) ls) = 12
   \<and> distinct (map fst (getMonthlySpendingData tz now (Some year) ls))
   \<and> getMonthlySpendingData tz now None ls
       = getMonthlySpendingData tz now (Some (YearFromTime (LocalTime tz now))) ls
   \<and> (1 \<le> m \<and> m \<le> 12 \<and> (\<forall>t\<in>set (getTransactions ls). \<not> fallsIn tz year m t) \<longrightarrow>
        map_of (getMonthlySpendingData tz now (Some year) ls) (monthKey year m)
          = Some \<lparr>income = Num 0, expense = Num 0\<rparr>)
   \<and> ((\<forall>t\<in>set (getTransactions ls). getFullYear tz (Date_parse (t_date t)) \<noteq> Some year) \<longrightarrow>
        getMonthlySpendingData tz now (Some year) ls
          = map (\<lambda>i. (monthKey year (int i + 1), \<lparr>income = Num 0, expense = Num 0\<rparr>)) [0..<12])"
proof -
  have keys: "map fst (getMonthlySpendingData tz now (Some year) ls)
     = map (\<lambda>i. monthKey year (int i + 1)) [0..<12]"
    by (simp add: getMonthlySpendingData_def map_fst_foldl_addToMonth initMonths_eq comp_def)
  have len: "length (getMonthlySpendingData tz now (Some year) ls) = 12"
    using arg_cong [OF keys, of length] by simp
  have dist: "distinct (map fst (getMonthlySpendingData tz now (Some year) ls))"
    unfolding keys by (rule monthKeys_distinct)
  have dflt: "getMonthlySpendingData tz now None ls
       = getMonthlySpendingData tz now (Some (YearFromTime (LocalTime tz now))) ls"
    by (simp add: getMonthlySpendingData_def)
  have zero: "1 \<le> m \<and> m \<le> 12 \<and> (\<forall>t\<in>set (getTransactions ls). \<not> fallsIn tz year m t) \<longrightarrow>
        map_of (getMonthlySpendingData tz now (Some year) ls) (monthKey year m)
          = Some \<lparr>income = Num 0, expense = Num 0\<rparr>"
    by (simp add: getMonthlySpendingData_def map_of_foldl_addToMonth_other map_of_initMonths)
  have none: "(\<forall>t\<in>set (getTransactions ls). getFullYear tz (Date_parse (t_date t)) \<noteq> Some year) \<longrightarrow>
        getMonthlySpendingData tz now (Some year) ls
          = map (\<lambda>i. (monthKey year (int i + 1), \<lparr>income = Num 0, expense = Num 0\<rparr>)) [0..<12]"
    by (simp add: getMonthlySpendingData_def foldl_addToMonth_other_year initMonths_eq)
  from keys len dist dflt zero none show ?thesis
    by (intro conjI)
qed

text \<open>
  At or east of Greenwich the month in which the code counts a transaction is the month
  its date names, and a month that no transaction is dated in reports zeros.
\<close>

lemma fallsIn_calendar:
  assumes "0 \<le> tz" "tz < msPerDay"
  shows "fallsIn tz year m t
         \<longleftrightarrow> valid_date (t_date t) \<and> d_year (t_date t) = year \<and> d_month (t_date t) = m"
proof (cases "valid_date (t_date t)")
  case True
  from local_fields_of_valid_date(1,2) [OF True assms] show ?thesis
    by (auto simp: fallsIn_def getFullYear_def getMonth_def Date_parse_def True)
next
  case False
  then show ?thesis
    by (simp add: fallsIn_def getFullYear_def Date_parse_def)
qed

lemma monthly_series_east:
  assumes "0 \<le> tz" "tz < msPerDay" "1 \<le> m" "m \<le> 12"
    and "\<forall>t\<in>set (getTransactions ls).
           \<not> (valid_date (t_date t) \<and> d_year (t_date t) = year \<and> d_month (t_date t) = m)"
  shows "map_of (getMonthlySpendingData tz now (Some year) ls) (monthKey year m)
           = Some \<lparr>income = Num 0, expense = Num 0\<rparr>"
  using assms monthly_series_complete [of tz now year ls m]
  by (simp add: fallsIn_calendar)

lemma date_evals:
  "Date_parse \<lparr>d_year = 2024, d_month = 1, d_day = 1\<rparr> = Some 1704067200000"
  "Date_parse \<lparr>d_year = 2025, d_month = 1, d_day = 1\<rparr> = Some 1735689600000"
  "Date_parse \<lparr>d_year = 2024, d_month = 1, d_day = 31\<rparr> = Some 1706659200000"
  "Date_parse \<lparr>d_year = 2024, d_month = 2, d_day = 1\<rparr> = Some 1706745600000"
  by (simp_all add: Date_parse_def valid_date_def DaysInMonth_def InLeapYear_def DaysInYear_def
      MakeDate_def MakeDay_def DayFromYear_def DaysBeforeMonth_def msPerDay_def)

lemma local_evals:
  "YearFromTime 1704067200000 = 2024" "MonthFromTime 1704067200000 = 0"
  "DateFromTime 1704067200000 = 1" "TimeWithinDay 1704067200000 = 0"
  "YearFromTime (LocalTime 19800000 1705320000000) = 2024"
  "MonthFromTime (LocalTime 19800000 1705320000000) = 0"
  "YearFromTime (LocalTime (- 18000000) 1706745600000) = 2024"
  "MonthFromTime (LocalTime (- 18000000) 1706745600000) = 0"
  by (simp_all add: YearFromTime_def MonthFromTime_def DateFromTime_def TimeWithinDay_def
      DayWithinYear_def YearFromDay_def Day_def DayFromYear_def InLeapYear_def DaysInYear_def
      DaysBeforeMonth_def LocalTime_def msPerDay_def Let_def)

lemma parse_evals:
  "Date_parse (t_date newYearLunch) = Some 1735689600000"
  "YearFromTime (LocalTime (- 18000000) 1735689600000) = 2024"
  "MonthFromTime (LocalTime (- 18000000) 1735689600000) = 11"
  by (simp_all add: newYearLunch_def date_evals YearFromTime_def MonthFromTime_def
      DayWithinYear_def YearFromDay_def Day_def DayFromYear_def InLeapYear_def DaysInYear_def
      LocalTime_def msPerDay_def Let_def)

lemma year_text: "numberToString 2024 = ''2024''"
  by (simp add: numberToString_def toString10_nat.simps digit10_def)

text \<open>
  C5. The claim: the series of a year has its twelve months, and a month with no
  transactions reports 0 for both, also when the store holds no transaction of that year.
  The twelve entries are always there (\<open>monthly_series_complete\<close>). But the code reads
  the month of a date in local time, and the date is midnight UTC: west of Greenwich that
  is the evening of the day before. In a browser five hours behind UTC, with the single
  expense of 30 dated 2024-02-01 in the store, the series of 2024 reports the 30 under
  January, which has no transaction, and 0 under February; and with the single expense
  dated 2025-01-01, the series of 2024 reports 30 under December although the store holds
  no transaction of 2024.
\<close>

theorem monthly_series_shifts_month:
  "getMonthlySpendingData (- 18000000) 0 (Some 2024)
     (setTransactions [lunch] (emptyStorage (\<lambda>k. False)))
   = [(''2024-01'', \<lparr>income = Num 0, expense = Num 30\<rparr>), (''2024-02'', \<lparr>income = Num 0, expense = Num 0\<rparr>),
      (''2024-03'', \<lparr>income = Num 0, expense = Num 0\<rparr>), (''2024-04'', \<lparr>income = Num 0, expense = Num 0\<rparr>),
      (''2024-05'', \<lparr>income = Num 0, expense = Num 0\<rparr>), (''2024-06'', \<lparr>income = Num 0, expense = Num 0\<rparr>),
      (''2024-07'', \<lparr>income = Num 0, expense = Num 0\<rparr>), (''2024-08'', \<lparr>income = Num 0, expense = Num 0\<rparr>),
      (''2024-09'', \<lparr>income = Num 0, expense = Num 0\<rparr>), (''2024-10'', \<lparr>income = Num 0, expense = Num 0\<rparr>),
      (''2024-11'', \<lparr>income = Num 0, expense = Num 0\<rparr>), (''2024-12'', \<lparr>income = Num 0, expense = Num 0\<rparr>)]
   \<and> getMonthlySpendingData (- 18000000) 0 (Some 2024)
     (setTransactions [newYearLunch] (emptyStorage (\<lambda>k. False)))
   = [(''2024-01'', \<lparr>income = Num 0, expense = Num 0\<rparr>), (''2024-02'', \<lparr>income = Num 0, expense = Num 0\<rparr>),
      (''2024-03'', \<lparr>income = Num 0, expense = Num 0\<rparr>), (''2024-04'', \<lparr>income = Num 0, expense = Num 0\<rparr>),
      (''2024-05'', \<lparr>income = Num 0, expense = Num 0\<rparr>), (''2024-06'', \<lparr>income = Num 0, expense = Num 0\<rparr>),
      (''2024-07'', \<lparr>income = Num 0, expense = Num 0\<rparr>), (''2024-08'', \<lparr>income = Num 0, expense = Num 0\<rparr>),
      (''2024-09'', \<lparr>income = Num 0, expense = Num 0\<rparr>), (''2024-10'', \<lparr>income = Num 0, expense = Num 0\<rparr>),
      (''2024-11'', \<lparr>income = Num 0, expense = Num 0\<rparr>), (''2024-12'', \<lparr>income = Num 0, expense = Num 30\<rparr>)]"
proof -
  have a: "getMonthlySpendingData (- 18000000) 0 (Some 2024)
     (setTransactions [lunch] (emptyStorage (\<lambda>k. False)))
   = [(''2024-01'', \<lparr>income = Num 0, expense = Num 30\<rparr>), (''2024-02'', \<lparr>income = Num 0, expense = Num 0\<rparr>),
      (''2024-03'', \<lparr>income = Num 0, expense = Num 0\<rparr>), (''2024-04'', \<lparr>income = Num 0, expense = Num 0\<rparr>),
      (''2024-05'', \<lparr>income = Num 0, expense = Num 0\<rparr>), (''2024-06'', \<lparr>income = Num 0, expense = Num 0\<rparr>),
      (''2024-07'', \<lparr>income = Num 0, expense = Num 0\<rparr>), (''2024-08'', \<lparr>income = Num 0, expense = Num 0\<rparr>),
      (''2024-09'', \<lparr>income = Num 0, expense = Num 0\<rparr>), (''2024-10'', \<lparr>income = Num 0, expense = Num 0\<rparr>),
      (''2024-11'', \<lparr>income = Num 0, expense = Num 0\<rparr>), (''2024-12'', \<lparr>income = Num 0, expense = Num 0\<rparr>)]"
    by (simp add: getMonthlySpendingData_def initMonths_eq upt_12 monthKey_def month_texts
        year_text addToMonth_def lunch_def date_evals getFullYear_def getMonth_def local_evals
        parseFloat_Ints double_round_Ints)
  have t: "t_type newYearLunch = Expense" "t_amount newYearLunch = 30"
    by (simp_all add: newYearLunch_def lunch_def)
  have b: "getMonthlySpendingData (- 18000000) 0 (Some 2024)
     (setTransactions [newYearLunch] (emptyStorage (\<lambda>k. False)))
   = [(''2024-01'', \<lparr>income = Num 0, expense = Num 0\<rparr>), (''2024-02'', \<lparr>income = Num 0, expense = Num 0\<rparr>),
      (''2024-03'', \<lparr>income = Num 0, expense = Num 0\<rparr>), (''2024-04'', \<lparr>income = Num 0, expense = Num 0\<rparr>),
      (''2024-05'', \<lparr>income = Num 0, expense = Num 0\<rparr>), (''2024-06'', \<lparr>income = Num 0, expense = Num 0\<rparr>),
      (''2024-07'', \<lparr>income = Num 0, expense = Num 0\<rparr>), (''2024-08'', \<lparr>income = Num 0, expense = Num 0\<rparr>),
      (''2024-09'', \<lparr>income = Num 0, expense = Num 0\<rparr>), (''2024-10'', \<lparr>income = Num 0, expense = Num 0\<rparr>),
      (''2024-11'', \<lparr>income = Num 0, expense = Num 0\<rparr>), (''2024-12'', \<lparr>income = Num 0, expense = Num 30\<rparr>)]"
    by (simp add: getMonthlySpendingData_def initMonths_eq upt_12 monthKey_def month_texts
        year_text addToMonth_def parse_evals getFullYear_def getMonth_def t parseFloat_Ints
        double_round_Ints)
  from a b show ?thesis
    by (rule conjI)
qed

section \<open>Budget windows\<close>

lemma setFullYear_eval: "setFullYear 0 (Some 1704067200000) (Some 2025) = Some 1735689600000"
  by (simp add: setFullYear_def LocalTime_def UTC_def local_evals MakeDate_def MakeDay_def
      DayFromYear_def InLeapYear_def DaysInYear_def DaysBeforeMonth_def msPerDay_def)

lemma annual_window_eval:
  "budgetWindow 0 now foodBudget = (Some 1704067200000, Some 1735689600000)"
  by (simp add: budgetWindow_def foodBudget_def date_evals getFullYear_def LocalTime_def
      local_evals setFullYear_eval)

lemma monthly_window_eval:
  "budgetWindow 19800000 1705320000000 (foodBudget\<lparr>b_period := Monthly\<rparr>)
     = (Some 1704047400000, Some 1706639400000)"
  by (simp add: budgetWindow_def foodBudget_def local_evals Date_local_def UTC_def MakeDate_def
      MakeDay_def DayFromYear_def InLeapYear_def DaysInYear_def DaysBeforeMonth_def msPerDay_def)

lemma budgetRow_monthly_ignores_startDate:
  "b_period bg = Monthly \<Longrightarrow> budgetRow tz now ls (bg\<lparr>b_startDate := d\<rparr>) = budgetRow tz now ls bg"
  by (simp add: budgetRow_def budgetWindow_def Let_def)

lemma getBudgetVsActual_length: "length (getBudgetVsActual tz clock ls) = length (getBudgets ls)"
  by (simp add: getBudgetVsActual_def)

text \<open>
  At or east of Greenwich, the window of an annual budget is closed at both ends: from
  the start date to the same date of the next year, that day included.
\<close>

lemma annual_window_east:
  assumes v: "valid_date (b_startDate bg)" and tz: "0 \<le> tz" "tz < msPerDay"
    and p: "b_period bg = Annual"
    and v': "valid_date ((b_startDate bg)\<lparr>d_year := d_year (b_startDate bg) + 1\<rparr>)"
  shows "budgetWindow tz now bg
         = (Date_parse (b_startDate bg),
            Date_parse ((b_startDate bg)\<lparr>d_year := d_year (b_startDate bg) + 1\<rparr>))"
proof -
  let ?a = "b_startDate bg"
  let ?n = "MakeDay (d_year ?a) (d_month ?a - 1) (d_day ?a)"
  have s: "Date_parse ?a = Some (MakeDate ?n 0)"
    by (simp add: Date_parse_def v)
  note f = local_fields_of_valid_date [OF v tz]
  have "setFullYear tz (Some (MakeDate ?n 0)) (Some (d_year ?a + 1))
          = Some (MakeDate (MakeDay (d_year ?a + 1) (d_month ?a - 1) (d_day ?a)) 0)"
  proof -
    have "MakeDate d tz - tz = MakeDate d 0" for d
      by (simp add: MakeDate_def)
    then show ?thesis
      by (simp add: setFullYear_def Let_def f Day_of_local_midnight(2) [OF tz] UTC_def)
  qed
  moreover have "Date_parse (?a\<lparr>d_year := d_year ?a + 1\<rparr>)
          = Some (MakeDate (MakeDay (d_year ?a + 1) (d_month ?a - 1) (d_day ?a)) 0)"
    using v' by (simp add: Date_parse_def)
  ultimately show ?thesis
    by (simp add: budgetWindow_def p s getFullYear_def f)
qed

lemma annual_window_closed:
  assumes v: "valid_date (b_startDate bg)" and tz: "0 \<le> tz" "tz < msPerDay"
    and p: "b_period bg = Annual"
    and v': "valid_date ((b_startDate bg)\<lparr>d_year := d_year (b_startDate bg) + 1\<rparr>)"
  shows "inWindow (budgetWindow tz now bg) t
         \<longleftrightarrow> t_type t = Expense \<and> valid_date (t_date t)
             \<and> calendar_le (b_startDate bg) (t_date t)
             \<and> calendar_le (t_date t) ((b_startDate bg)\<lparr>d_year := d_year (b_startDate bg) + 1\<rparr>)"
proof (cases "valid_date (t_date t)")
  case True
  from Date_parse_le_iff(2) [OF v True] Date_parse_le_iff(1) [OF True v']
  show ?thesis
    by (auto simp: inWindow_def annual_window_east [OF v tz p v'] True)
next
  case False
  then show ?thesis
    by (simp add: inWindow_def Date_parse_def date_ge_def)
qed

text \<open>
  C2. The claim: an annual budget counts the expenses from its start date up to, and not
  including, the same date a year later; a monthly budget counts those from the first to
  the last day of the current month. The code compares with \<open><=\<close> at the end of the
  window, and the end of the annual window is the start date plus one year: for the
  budget that starts on 2024-01-01 an expense dated 2025-01-01 is counted. The monthly
  window runs between two local midnights, and the dates are midnights UTC: in a browser
  five and a half hours ahead of UTC, on 15 January 2024, the expense dated 2024-01-31 is
  left out.
\<close>

theorem budget_window_counts_anniversary:
  "budgetWindow 0 1705320000000 foodBudget
     = (Date_parse \<lparr>d_year = 2024, d_month = 1, d_day = 1\<rparr>,
        Date_parse \<lparr>d_year = 2025, d_month = 1, d_day = 1\<rparr>)
   \<and> getBudgetVsActual 0 (\<lambda>i. 1705320000000) (budgetStorage foodBudget newYearLunch)
     = [\<lparr>r_category = ''Food'', r_budgetAmount = Num 500, r_actualSpent = Num 30,
         r_remaining = Num 470, r_percentage = Num 6\<rparr>]
   \<and> YearFromTime (LocalTime 19800000 1705320000000) = 2024
   \<and> MonthFromTime (LocalTime 19800000 1705320000000) = 0
   \<and> getBudgetVsActual 19800000 (\<lambda>i. 1705320000000)
        (budgetStorage (foodBudget\<lparr>b_period := Monthly\<rparr>) monthEndLunch)
     = [\<lparr>r_category = ''Food'', r_budgetAmount = Num 500, r_actualSpent = Num 0,
         r_remaining = Num 500, r_percentage = Num 0\<rparr>]"
proof -
  have w: "budgetWindow 0 1705320000000 foodBudget
     = (Date_parse \<lparr>d_year = 2024, d_month = 1, d_day = 1\<rparr>,
        Date_parse \<lparr>d_year = 2025, d_month = 1, d_day = 1\<rparr>)"
    by (simp add: annual_window_eval date_evals)
  have fb: "b_category foodBudget = ''Food''" "b_amount foodBudget = 500"
    by (simp_all add: foodBudget_def)
  have a: "getBudgetVsActual 0 (\<lambda>i. 1705320000000) (budgetStorage foodBudget newYearLunch)
     = [\<lparr>r_category = ''Food'', r_budgetAmount = Num 500, r_actualSpent = Num 30,
         r_remaining = Num 470, r_percentage = Num 6\<rparr>]"
    by (simp add: getBudgetVsActual_def budgetStorage_def budgetRow_def annual_window_eval
        getTransactionsByCategory_def inWindow_def sumAmounts_def newYearLunch_def lunch_def
        date_evals date_ge_def date_le_def fb Let_def parseFloat_Ints double_round_Ints
        num_sub_def percentage_eval del: num_div.simps num_mul.simps)
  have m: "getBudgetVsActual 19800000 (\<lambda>i. 1705320000000)
        (budgetStorage (foodBudget\<lparr>b_period := Monthly\<rparr>) monthEndLunch)
     = [\<lparr>r_category = ''Food'', r_budgetAmount = Num 500, r_actualSpent = Num 0,
         r_remaining = Num 500, r_percentage = Num 0\<rparr>]"
    by (simp add: getBudgetVsActual_def budgetStorage_def budgetRow_def monthly_window_eval
        getTransactionsByCategory_def inWindow_def sumAmounts_def monthEndLunch_def lunch_def
        date_evals date_ge_def date_le_def fb Let_def parseFloat_Ints double_round_Ints
        num_sub_def)
  from w a local_evals(5,6) m show ?thesis
    by (intro conjI)
qed

end
